theory Spec2Isabelle
  imports Complex_Main
begin

section \<open>Conventions of the embedding\<close>

text \<open>
  The analytics engine is Python. Its \<open>float\<close> values are modelled as \<open>real\<close>: the
  theorems below are about the control flow and the exact arithmetic of the formulas, not
  about rounding. Where a Python \<open>float\<close> operation raises (division by zero) the model
  returns \<open>Inl\<close> of the exception. A \<open>datetime\<close> is the number of seconds since an
  arbitrary epoch, so that \<open>(a - b).total_seconds()\<close> is \<open>a - b\<close>.
\<close>

datatype py_error = ZeroDivisionError | TypeError | ValueError | KeyError | IndexError

text \<open>
  A value stored in a Python \<open>dict\<close> of metrics: \<open>None\<close>, an \<open>int\<close> or a \<open>float\<close>.
\<close>

datatype pyval = PNone | PInt int | PFloat real

fun num_of :: "pyval \<Rightarrow> real option" where
  "num_of PNone = None"
| "num_of (PInt i) = Some (real_of_int i)"
| "num_of (PFloat r) = Some r"

definition dict_get :: "('k \<rightharpoonup> 'v) \<Rightarrow> 'k \<Rightarrow> 'v \<Rightarrow> 'v" where
  \<comment> \<open>\<open>d.get(k, default)\<close>\<close>
  "dict_get d k dflt = (case d k of None \<Rightarrow> dflt | Some v \<Rightarrow> v)"

text \<open>
  Where the range of a float matters, a float is a value of \<open>fval\<close>: NaN, an infinity or a
  finite number. \<open>fl\<close> is the range part of rounding to a double: a result whose magnitude
  is at least \<open>2^1024 - 2^970\<close> overflows to an infinity, one whose magnitude is at most
  \<open>2^-1075\<close> underflows to zero. The rounding of the mantissa and the sign of a zero are
  not modelled. Python's \<open>/\<close> on floats raises \<open>ZeroDivisionError\<close> for a zero divisor,
  whatever the dividend; its \<open>min(a, b)\<close> is \<open>b\<close> if \<open>b < a\<close> and else \<open>a\<close>, its
  \<open>max(a, b)\<close> is \<open>b\<close> if \<open>b > a\<close> and else \<open>a\<close>, and every comparison with NaN is false.
\<close>

datatype fval = NaN | PosInf | NegInf | Fin real

definition fl :: "real \<Rightarrow> fval" where
  "fl x =
     (if \<bar>x\<bar> \<ge> 2 ^ 1024 - 2 ^ 970 then (if x > 0 then PosInf else NegInf)
      else if \<bar>x\<bar> \<le> 1 / 2 ^ 1075 then Fin 0
      else Fin x)"

fun float_abs :: "fval \<Rightarrow> fval" where
  "float_abs (Fin a) = Fin \<bar>a\<bar>"
| "float_abs PosInf = PosInf"
| "float_abs NegInf = PosInf"
| "float_abs NaN = NaN"

fun float_sub :: "fval \<Rightarrow> fval \<Rightarrow> fval" where
  "float_sub (Fin a) (Fin b) = fl (a - b)"
| "float_sub (Fin a) PosInf = NegInf"
| "float_sub (Fin a) NegInf = PosInf"
| "float_sub PosInf (Fin b) = PosInf"
| "float_sub NegInf (Fin b) = NegInf"
| "float_sub PosInf NegInf = PosInf"
| "float_sub NegInf PosInf = NegInf"
| "float_sub _ _ = NaN"

fun float_mul :: "fval \<Rightarrow> fval \<Rightarrow> fval" where
  "float_mul (Fin a) (Fin b) = fl (a * b)"
| "float_mul (Fin a) PosInf = (if a = 0 then NaN else if a > 0 then PosInf else NegInf)"
| "float_mul (Fin a) NegInf = (if a = 0 then NaN else if a > 0 then NegInf else PosInf)"
| "float_mul PosInf (Fin b) = (if b = 0 then NaN else if b > 0 then PosInf else NegInf)"
| "float_mul NegInf (Fin b) = (if b = 0 then NaN else if b > 0 then NegInf else PosInf)"
| "float_mul PosInf PosInf = PosInf"
| "float_mul PosInf NegInf = NegInf"
| "float_mul NegInf PosInf = NegInf"
| "float_mul NegInf NegInf = PosInf"
| "float_mul _ _ = NaN"

fun float_quot :: "fval \<Rightarrow> fval \<Rightarrow> fval" where
  \<comment> \<open>the quotient by a divisor that is not zero\<close>
  "float_quot (Fin a) (Fin b) = fl (a / b)"
| "float_quot (Fin a) PosInf = Fin 0"
| "float_quot (Fin a) NegInf = Fin 0"
| "float_quot PosInf (Fin b) = (if b > 0 then PosInf else NegInf)"
| "float_quot NegInf (Fin b) = (if b > 0 then NegInf else PosInf)"
| "float_quot _ _ = NaN"

definition py_truediv :: "fval \<Rightarrow> fval \<Rightarrow> py_error + fval" where
  "py_truediv a b = (if b = Fin 0 then Inl ZeroDivisionError else Inr (float_quot a b))"

fun float_less :: "fval \<Rightarrow> fval \<Rightarrow> bool" where
  "float_less (Fin a) (Fin b) = (a < b)"
| "float_less (Fin a) PosInf = True"
| "float_less NegInf (Fin b) = True"
| "float_less NegInf PosInf = True"
| "float_less _ _ = False"

definition py_min :: "fval \<Rightarrow> fval \<Rightarrow> fval" where
  "py_min a b = (if float_less b a then b else a)"

definition py_max :: "fval \<Rightarrow> fval \<Rightarrow> fval" where
  "py_max a b = (if float_less a b then b else a)"

section \<open>PositionSimulator (analytics/pnl\_tracker.py)\<close>

record position =
  entry_time :: real
  entry_zscore :: real
  entry_spread :: real
  entry_price_1 :: real
  entry_price_2 :: real
  direction :: string
  size_usd :: real
  hedge_ratio :: real

record closed_trade =
  t_entry_time :: real
  t_exit_time :: real
  t_entry_zscore :: real
  t_exit_zscore :: real
  t_direction :: string
  t_size :: real
  pnl :: real
  pnl_percent :: real
  hold_duration :: real
  max_favorable :: real
  max_adverse :: real

record simulator =
  initial_capital :: real
  current_capital :: real
  entry_threshold :: real
  exit_threshold :: real
  position_size_pct :: real
  stop_loss_pct :: real
  take_profit_pct :: real
  current_position :: "position option"
  closed_trades :: "closed_trade list"
  max_unrealized_profit :: real
  max_unrealized_loss :: real
  total_pnl :: real
  win_count :: int
  loss_count :: int
  max_drawdown :: real
  peak_capital :: real

text \<open>
  The two public checks return a formatted message or \<open>None\<close>. The model keeps the
  fields the message is formatted from: the direction and z-score of an entry; the reason,
  the pnl and the pnl percentage of an exit.
\<close>

datatype signal = Entry string real | Exit string real real

definition PositionSimulator ::
  "real \<Rightarrow> real \<Rightarrow> real \<Rightarrow> real \<Rightarrow> real \<Rightarrow> real \<Rightarrow> simulator" where
  "PositionSimulator initial_cap entry_thr exit_thr size_pct stop_pct take_pct =
     \<lparr> initial_capital = initial_cap,
       current_capital = initial_cap,
       entry_threshold = entry_thr,
       exit_threshold = exit_thr,
       position_size_pct = size_pct,
       stop_loss_pct = stop_pct,
       take_profit_pct = take_pct,
       current_position = None,
       closed_trades = [],
       max_unrealized_profit = 0,
       max_unrealized_loss = 0,
       total_pnl = 0,
       win_count = 0,
       loss_count = 0,
       max_drawdown = 0,
       peak_capital = initial_cap \<rparr>"

definition check_entry_signal ::
  "simulator \<Rightarrow> real \<Rightarrow> real \<Rightarrow> real \<Rightarrow> real \<Rightarrow> real \<Rightarrow> real \<Rightarrow> signal option \<times> simulator" where
  "check_entry_signal s zscore spread price_1 price_2 hedge timestamp =
     (if current_position s \<noteq> None then (None, s)
      else if \<bar>zscore\<bar> > entry_threshold s then
        (let dir = (if zscore > 0 then ''short'' else ''long'');
             sz = current_capital s * position_size_pct s
         in (Some (Entry dir zscore),
             s\<lparr> current_position := Some
                   \<lparr> entry_time = timestamp,
                     entry_zscore = zscore,
                     entry_spread = spread,
                     entry_price_1 = price_1,
                     entry_price_2 = price_2,
                     direction = dir,
                     size_usd = sz,
                     hedge_ratio = hedge \<rparr>,
                max_unrealized_profit := 0,
                max_unrealized_loss := 0 \<rparr>))
      else (None, s))"

text \<open>
  \<open>_calculate_pnl\<close> divides by the entry spread and by the position size; on Python
  floats both divisions raise \<open>ZeroDivisionError\<close> when the divisor is zero.
\<close>

definition calculate_pnl ::
  "simulator \<Rightarrow> real \<Rightarrow> real \<Rightarrow> real \<Rightarrow> py_error + (real \<times> real)" where
  "calculate_pnl s current_spread current_price_1 current_price_2 =
     (case current_position s of
        None \<Rightarrow> Inr (0, 0)
      | Some pos \<Rightarrow>
          (let spread_change = current_spread - entry_spread pos in
           if entry_spread pos = 0 then Inl ZeroDivisionError
           else
             (let p = (if direction pos = ''long''
                       then size_usd pos * (spread_change / entry_spread pos)
                       else size_usd pos * (- spread_change / entry_spread pos))
              in if size_usd pos = 0 then Inl ZeroDivisionError
                 else Inr (p, (p / size_usd pos) * 100))))"

definition close_position ::
  "simulator \<Rightarrow> real \<Rightarrow> real \<Rightarrow> real \<Rightarrow> real \<Rightarrow> real \<Rightarrow> string
     \<Rightarrow> py_error + (signal option \<times> simulator)" where
  "close_position s exit_zscore exit_spread exit_price_1 exit_price_2 exit_time reason =
     (case current_position s of
        None \<Rightarrow> Inr (None, s)
      | Some pos \<Rightarrow>
          (case calculate_pnl s exit_spread exit_price_1 exit_price_2 of
             Inl e \<Rightarrow> Inl e
           | Inr (p, p_pct) \<Rightarrow>
               (let cap = current_capital s + p;
                    tot = total_pnl s + p;
                    peak = (if cap > peak_capital s then cap else peak_capital s)
                in if peak = 0 then Inl ZeroDivisionError
                   else
                     (let drawdown = (peak - cap) / peak;
                          trade = \<lparr> t_entry_time = entry_time pos,
                                    t_exit_time = exit_time,
                                    t_entry_zscore = entry_zscore pos,
                                    t_exit_zscore = exit_zscore,
                                    t_direction = direction pos,
                                    t_size = size_usd pos,
                                    pnl = p,
                                    pnl_percent = p_pct,
                                    hold_duration = exit_time - entry_time pos,
                                    max_favorable = max_unrealized_profit s,
                                    max_adverse = max_unrealized_loss s \<rparr>
                      in Inr (Some (Exit reason p p_pct),
                              s\<lparr> current_capital := cap,
                                 total_pnl := tot,
                                 peak_capital := peak,
                                 max_drawdown := max (max_drawdown s) drawdown,
                                 win_count := (if p > 0 then win_count s + 1 else win_count s),
                                 loss_count := (if p > 0 then loss_count s else loss_count s + 1),
                                 closed_trades := closed_trades s @ [trade],
                                 current_position := None \<rparr>)))))"

definition check_exit_signal ::
  "simulator \<Rightarrow> real \<Rightarrow> real \<Rightarrow> real \<Rightarrow> real \<Rightarrow> real
     \<Rightarrow> py_error + (signal option \<times> simulator)" where
  "check_exit_signal s zscore spread price_1 price_2 timestamp =
     (case current_position s of
        None \<Rightarrow> Inr (None, s)
      | Some pos \<Rightarrow>
          (case calculate_pnl s spread price_1 price_2 of
             Inl e \<Rightarrow> Inl e
           | Inr (current_pnl, pnl_pct) \<Rightarrow>
               (let s1 = s\<lparr> max_unrealized_profit := max (max_unrealized_profit s) current_pnl,
                            max_unrealized_loss := min (max_unrealized_loss s) current_pnl \<rparr>;
                    verdict =
                      (if \<bar>zscore\<bar> < exit_threshold s
                         then (True, ''Mean reversion complete'')
                       else if (direction pos = ''long'' \<and> zscore > 0)
                               \<or> (direction pos = ''short'' \<and> zscore < 0)
                         then (True, ''Z-score crossed zero'')
                       else if current_pnl < - (size_usd pos * stop_loss_pct s)
                         then (True, ''Stop loss'')
                       else if current_pnl > size_usd pos * take_profit_pct s
                         then (True, ''Take profit'')
                       else (False, ''''))
                in if fst verdict
                   then close_position s1 zscore spread price_1 price_2 timestamp (snd verdict)
                   else Inr (None, s1))))"

text \<open>
  \<open>get_performance_metrics\<close> returns a \<open>dict\<close>, modelled as the list of its items in
  the order of the literal. \<open>np.mean\<close> and \<open>np.std\<close> (population standard deviation) are
  only applied to non-empty lists. Numbers read from the simulator's state are rendered as
  \<open>PFloat\<close>; the literal \<open>0\<close> of the source is \<open>PInt 0\<close>.
\<close>

definition np_mean :: "real list \<Rightarrow> real" where
  "np_mean xs = sum_list xs / real (length xs)"

definition np_std :: "real list \<Rightarrow> real" where
  "np_std xs = sqrt (np_mean (map (\<lambda>x. (x - np_mean xs)\<^sup>2) xs))"

definition get_performance_metrics :: "simulator \<Rightarrow> py_error + (string \<times> pyval) list" where
  "get_performance_metrics s =
     (let total_trades = length (closed_trades s) in
      if total_trades = 0 then
        Inr [ (''total_trades'', PInt 0),
              (''win_rate'', PFloat 0),
              (''avg_win'', PFloat 0),
              (''avg_loss'', PFloat 0),
              (''profit_factor'', PFloat 0),
              (''sharpe_ratio'', PFloat 0),
              (''max_drawdown'', PFloat 0),
              (''total_pnl'', PFloat 0),
              (''current_capital'', PFloat (current_capital s)) ]
      else
        (let win_rate = (real_of_int (win_count s) / real total_trades) * 100;
             wins = map pnl (filter (\<lambda>t. pnl t > 0) (closed_trades s));
             losses = map pnl (filter (\<lambda>t. pnl t < 0) (closed_trades s));
             avg_win = (if wins \<noteq> [] then PFloat (np_mean wins) else PInt 0);
             avg_loss = (if losses \<noteq> [] then PFloat \<bar>np_mean losses\<bar> else PInt 0);
             total_wins = (if wins \<noteq> [] then sum_list wins else 0);
             total_losses = (if losses \<noteq> [] then \<bar>sum_list losses\<bar> else 0);
             profit_factor = (if total_losses > 0 then PFloat (total_wins / total_losses)
                              else PInt 0);
             returns = map pnl_percent (closed_trades s);
             sharpe_ratio =
               (if length returns > 1 \<and> np_std returns > 0
                then (np_mean returns / np_std returns) * sqrt 252 else 0)
         in if initial_capital s = 0 then Inl ZeroDivisionError
            else
              Inr [ (''total_trades'', PInt (int total_trades)),
                    (''win_rate'', PFloat win_rate),
                    (''avg_win'', avg_win),
                    (''avg_loss'', avg_loss),
                    (''profit_factor'', profit_factor),
                    (''sharpe_ratio'', PFloat sharpe_ratio),
                    (''max_drawdown'', PFloat (max_drawdown s * 100)),
                    (''total_pnl'', PFloat (total_pnl s)),
                    (''total_return'',
                       PFloat (((current_capital s - initial_capital s) / initial_capital s) * 100)),
                    (''current_capital'', PFloat (current_capital s)),
                    (''peak_capital'', PFloat (peak_capital s)) ]))"

section \<open>RiskAnalytics (analytics/risk.py)\<close>

text \<open>
  \<open>calculate_kelly_criterion\<close> takes Python floats, as its signature says, and divides
  twice. The quotient of the average win by the average loss is a float: it is zero when
  the average win is zero and also when the exact quotient underflows, and the second
  division then raises. numpy scalars, which divide without raising, are not modelled.
\<close>

definition calculate_kelly_criterion :: "fval \<Rightarrow> fval \<Rightarrow> fval \<Rightarrow> py_error + fval" where
  "calculate_kelly_criterion win_rate avg_win avg_loss =
     (if avg_loss = Fin 0 \<or> win_rate = Fin 0 then Inr (Fin 0)
      else
        (let loss_rate = float_sub (Fin 1) win_rate in
         case py_truediv avg_win (float_abs avg_loss) of
           Inl e \<Rightarrow> Inl e
         | Inr win_loss_ratio \<Rightarrow>
             (case py_truediv (float_sub (float_mul win_rate win_loss_ratio) loss_rate)
                              win_loss_ratio of
                Inl e \<Rightarrow> Inl e
              | Inr kelly \<Rightarrow> Inr (py_max (Fin 0) (py_min kelly (Fin 0.25))))))"

text \<open>
  \<open>calculate_portfolio_health_score\<close> reads three keys of the risk-metrics \<open>dict\<close>.
  Comparing \<open>None\<close> with a number raises \<open>TypeError\<close>; only the Sharpe ratio is tested
  for \<open>None\<close> first. The three component scores are the three blocks of the source
  function, in its order.
\<close>

definition drawdown_score :: "real \<Rightarrow> real" where
  "drawdown_score current_dd_pct =
     (if current_dd_pct < 5 then 100
      else if current_dd_pct < 10 then 90 - (current_dd_pct - 5) * 2
      else if current_dd_pct < 20 then 80 - (current_dd_pct - 10)
      else if current_dd_pct < 40 then 70 - (current_dd_pct - 20) * 1.5
      else max 0 (40 - (current_dd_pct - 40)))"

definition sharpe_score :: "pyval \<Rightarrow> real" where
  "sharpe_score sharpe =
     (case num_of sharpe of
        None \<Rightarrow> 50
      | Some sh \<Rightarrow>
          (if sh \<ge> 2.0 then 100
           else if sh \<ge> 1.0 then 70 + (sh - 1.0) * 30
           else if sh \<ge> 0 then 50 + sh * 20
           else max 0 (50 + sh * 50)))"

definition utilization_score :: "real \<Rightarrow> real" where
  "utilization_score risk_util =
     (if 50 \<le> risk_util \<and> risk_util \<le> 80 then 100
      else if risk_util < 50 then 70 + risk_util * 0.6
      else max 0 (100 - (risk_util - 80)))"

record health =
  health_score :: real
  health_level :: string
  h_drawdown_score :: real
  h_sharpe_score :: real
  h_utilization_score :: real

definition calculate_portfolio_health_score :: "(string \<rightharpoonup> pyval) \<Rightarrow> py_error + health" where
  "calculate_portfolio_health_score risk_metrics =
     (case num_of (dict_get risk_metrics ''current_drawdown_pct'' (PInt 0)) of
        None \<Rightarrow> Inl TypeError
      | Some current_dd_pct \<Rightarrow>
          (let dd_score = drawdown_score current_dd_pct;
               sh_score = sharpe_score (dict_get risk_metrics ''sharpe_ratio'' (PInt 0))
           in case num_of (dict_get risk_metrics ''risk_utilization'' (PInt 0)) of
                None \<Rightarrow> Inl TypeError
              | Some risk_util \<Rightarrow>
                  (let util_score = utilization_score risk_util;
                       score = dd_score * 0.40 + sh_score * 0.35 + util_score * 0.25;
                       level = (if score \<ge> 80 then ''Excellent''
                                else if score \<ge> 65 then ''Good''
                                else if score \<ge> 50 then ''Fair''
                                else if score \<ge> 35 then ''Poor''
                                else ''Critical'')
                   in Inr \<lparr> health_score = score,
                            health_level = level,
                            h_drawdown_score = dd_score,
                            h_sharpe_score = sh_score,
                            h_utilization_score = util_score \<rparr>)))"

section \<open>StatisticalAnalytics (analytics/statistical.py)\<close>

text \<open>
  A \<open>pandas.Series\<close> of prices is a list of samples, \<open>None\<close> for a missing one (NaN).
  Division of floats held by numpy or pandas does not raise: a non-zero number over zero
  is an infinity, zero over zero is NaN. The sign of a zero is not modelled.
\<close>

definition fdiv :: "real \<Rightarrow> real \<Rightarrow> fval" where
  "fdiv a b =
     (if b = 0 then (if a = 0 then NaN else if a > 0 then PosInf else NegInf)
      else Fin (a / b))"

fun fval_div :: "fval \<Rightarrow> fval \<Rightarrow> fval" where
  "fval_div (Fin a) (Fin b) = fdiv a b"
| "fval_div (Fin a) PosInf = Fin 0"
| "fval_div (Fin a) NegInf = Fin 0"
| "fval_div PosInf (Fin b) = (if b < 0 then NegInf else PosInf)"
| "fval_div NegInf (Fin b) = (if b < 0 then PosInf else NegInf)"
| "fval_div _ _ = NaN"

definition np_log :: "real \<Rightarrow> fval" where
  "np_log x = (if x > 0 then Fin (ln x) else if x = 0 then NegInf else NaN)"

definition dropna :: "real option list \<Rightarrow> real list" where
  "dropna xs = map the (filter (\<lambda>x. x \<noteq> None) xs)"

text \<open>
  \<open>calculate_half_life\<close> regresses the first differences of the cleaned spread on its
  lagged values. The fit is statsmodels' \<open>OLS(ret, lag).fit().params[0]\<close>; it is a
  parameter \<open>ols\<close> of the model, returning the coefficient or the exception it raised.
  \<open>aligned_pairs\<close> is the frame \<open>df\<close> of the source: row \<open>k\<close> holds the difference
  \<open>c[k+1] - c[k]\<close> and the lag \<open>c[k]\<close>.
\<close>

definition aligned_pairs :: "real list \<Rightarrow> (real \<times> real) list" where
  "aligned_pairs c = map (\<lambda>k. (c ! Suc k - c ! k, c ! k)) [0..<length c - 1]"

definition calculate_half_life ::
  "(real list \<Rightarrow> real list \<Rightarrow> py_error + real) \<Rightarrow> real option list \<Rightarrow> fval" where
  "calculate_half_life ols spread =
     (let spread_clean = dropna spread in
      if length spread_clean < 20 then NaN
      else
        (let df = aligned_pairs spread_clean in
         if length df < 10 then NaN
         else
           (case ols (map fst df) (map snd df) of
              Inl e \<Rightarrow> NaN
            | Inr lambda_coef \<Rightarrow>
                if lambda_coef \<ge> 0 then PosInf
                else fval_div (Fin (- ln 2)) (np_log (1 + lambda_coef)))))"


section \<open>AlertEngine (alerts/engine.py)\<close>

datatype alert_type =
  ZSCORE_THRESHOLD | SPREAD_BREAKOUT | VOLATILITY_SPIKE | CORRELATION_BREAK | CUSTOM

datatype alert_severity = INFO | WARNING | CRITICAL

text \<open>
  A rule's condition is any callable: it returns a truth value or raises. The model gives it
  the value, the threshold and the optional analytics data, and gets \<open>Inr\<close> of the truth
  value or \<open>Inl\<close> of the text of the exception. Only exceptions that \<open>except Exception\<close>
  catches are modelled.
\<close>

datatype ctx_val = CNum real | CSeries "real list"

type_synonym analytics_data = "(string \<rightharpoonup> ctx_val) option"

record alert_rule =
  rule_id :: string
  alert_type :: alert_type
  symbol :: string
  condition :: "real \<Rightarrow> real \<Rightarrow> analytics_data \<Rightarrow> string + bool"
  threshold :: real
  severity :: alert_severity
  cooldown_seconds :: int
  message_template :: string
  enabled :: bool

record alert =
  a_rule_id :: string
  a_alert_type :: alert_type
  a_symbol :: string
  a_severity :: alert_severity
  message :: string
  a_value :: real
  a_threshold :: real
  timestamp :: real

text \<open>
  A callback is a callable too, synchronous or a coroutine function; \<open>check_rule\<close> calls
  the first and awaits the second. It acts on the listener's own state \<open>'w\<close> and may
  raise after changing it: the result is the text of the exception, if any, and the new
  state.
\<close>

datatype 'w callback =
  SyncCallback "alert \<Rightarrow> 'w \<Rightarrow> string option \<times> 'w"
| AsyncCallback "alert \<Rightarrow> 'w \<Rightarrow> string option \<times> 'w"

datatype log_entry = LogInfo string | LogWarning string | LogError string

record 'w alert_engine =
  check_interval :: real
  rules :: "string \<rightharpoonup> alert_rule"
  alert_history :: "alert list"
  last_trigger_times :: "string \<rightharpoonup> real"
  callbacks :: "'w callback list"
  running :: bool

definition AlertEngine :: "real \<Rightarrow> 'w alert_engine" where
  "AlertEngine interval =
     \<lparr> check_interval = interval,
       rules = Map.empty,
       alert_history = [],
       last_trigger_times = Map.empty,
       callbacks = [],
       running = False \<rparr>"

definition add_rule :: "'w alert_engine \<Rightarrow> alert_rule \<Rightarrow> 'w alert_engine \<times> log_entry list" where
  "add_rule eng rule =
     (eng\<lparr> rules := (rules eng)(rule_id rule \<mapsto> rule) \<rparr>,
      [LogInfo (''Added alert rule: '' @ rule_id rule @ '' for '' @ symbol rule)])"

definition register_callback :: "'w alert_engine \<Rightarrow> 'w callback \<Rightarrow> 'w alert_engine" where
  "register_callback eng cb = eng\<lparr> callbacks := callbacks eng @ [cb] \<rparr>"

fun invoke :: "'w callback \<Rightarrow> alert \<Rightarrow> 'w \<Rightarrow> string option \<times> 'w" where
  "invoke (SyncCallback f) a w = f a w"
| "invoke (AsyncCallback f) a w = f a w"

text \<open>The loop over the callbacks: an exception is logged and the loop goes on.\<close>

fun run_callbacks :: "'w callback list \<Rightarrow> alert \<Rightarrow> 'w \<Rightarrow> 'w \<times> log_entry list" where
  "run_callbacks [] a w = (w, [])"
| "run_callbacks (cb # cbs) a w =
     (case invoke cb a w of
        (None, w1) \<Rightarrow> run_callbacks cbs a w1
      | (Some e, w1) \<Rightarrow>
          (let (w2, logs) = run_callbacks cbs a w1
           in (w2, LogError (''Error in alert callback: '' @ e) # logs)))"

text \<open>
  \<open>check_rule\<close> reads the clock up to three times: for the cooldown test, for the
  timestamp of the alert and for the new last trigger time. The three readings are the
  arguments \<open>now_check\<close>, \<open>now_alert\<close> and \<open>now_update\<close>. \<open>str.format\<close> is the parameter
  \<open>fmt\<close>, given the template, the symbol, the value and the threshold; it returns the
  message or raises, and that exception is not caught. The result is the returned alert,
  the engine, the listeners' state and the lines logged.
\<close>

definition check_rule ::
  "(string \<Rightarrow> string \<Rightarrow> real \<Rightarrow> real \<Rightarrow> py_error + string)
     \<Rightarrow> real \<Rightarrow> real \<Rightarrow> real
     \<Rightarrow> 'w alert_engine \<Rightarrow> 'w \<Rightarrow> alert_rule \<Rightarrow> real \<Rightarrow> analytics_data
     \<Rightarrow> py_error + (alert option \<times> 'w alert_engine \<times> 'w \<times> log_entry list)" where
  "check_rule fmt now_check now_alert now_update eng w rule current_value data =
     (if \<not> enabled rule then Inr (None, eng, w, [])
      else if (case last_trigger_times eng (rule_id rule) of
                 None \<Rightarrow> False
               | Some last_trigger \<Rightarrow>
                   now_check - last_trigger < real_of_int (cooldown_seconds rule))
        then Inr (None, eng, w, [])
      else
        (case condition rule current_value (threshold rule) data of
           Inl e \<Rightarrow>
             Inr (None, eng, w,
                  [LogError (''Error evaluating rule '' @ rule_id rule @ '': '' @ e)])
         | Inr should_trigger \<Rightarrow>
             if \<not> should_trigger then Inr (None, eng, w, [])
             else
               (case fmt (message_template rule) (symbol rule) current_value (threshold rule) of
                  Inl err \<Rightarrow> Inl err
                | Inr msg \<Rightarrow>
                    (let a = \<lparr> a_rule_id = rule_id rule,
                                a_alert_type = alert_type rule,
                                a_symbol = symbol rule,
                                a_severity = severity rule,
                                message = msg,
                                a_value = current_value,
                                a_threshold = threshold rule,
                                timestamp = now_alert \<rparr>;
                         eng1 = eng\<lparr> last_trigger_times :=
                                       (last_trigger_times eng)(rule_id rule \<mapsto> now_update),
                                     alert_history := alert_history eng @ [a] \<rparr>;
                         (w1, logs) = run_callbacks (callbacks eng1) a w
                     in Inr (Some a, eng1, w1, logs @ [LogWarning (''ALERT: '' @ msg)])))))"

definition get_recent_alerts :: "'w alert_engine \<Rightarrow> int \<Rightarrow> real \<Rightarrow> alert list" where
  \<comment> \<open>the last argument is the reading of the clock\<close>
  "get_recent_alerts eng minutes now =
     filter (\<lambda>a. timestamp a > now - real_of_int minutes * 60) (alert_history eng)"

definition get_alerts_by_symbol :: "'w alert_engine \<Rightarrow> string \<Rightarrow> alert list" where
  "get_alerts_by_symbol eng s = filter (\<lambda>a. a_symbol a = s) (alert_history eng)"

definition clear_history :: "'w alert_engine \<Rightarrow> 'w alert_engine \<times> log_entry list" where
  "clear_history eng = (eng\<lparr> alert_history := [] \<rparr>, [LogInfo ''Alert history cleared''])"

definition zscore_above :: "real \<Rightarrow> real \<Rightarrow> analytics_data \<Rightarrow> string + bool" where
  "zscore_above v thr data = Inr (\<bar>v\<bar> > thr)"

text \<open>
  The builder of \<open>AlertRuleBuilder\<close> for a z-score rule. The rule id holds the threshold as
  Python prints it; that text is the argument \<open>thr_text\<close>.
\<close>

definition zscore_threshold_alert ::
  "string \<Rightarrow> real \<Rightarrow> string \<Rightarrow> alert_severity \<Rightarrow> alert_rule" where
  "zscore_threshold_alert sy thr thr_text sev =
     \<lparr> rule_id = ''zscore_'' @ sy @ ''_'' @ thr_text,
       alert_type = ZSCORE_THRESHOLD,
       symbol = sy,
       condition = zscore_above,
       threshold = thr,
       severity = sev,
       cooldown_seconds = 60,
       message_template = ''Z-score for {symbol} = {value:.2f} (threshold: {threshold})'',
       enabled = True \<rparr>"

section \<open>Notions used to state the properties\<close>

text \<open>
  The cooldown test of \<open>check_rule\<close>, the alert it builds, and what each callback of the
  list did when called in turn on the state its predecessors left: \<open>None\<close> when it
  returned, the text of its exception when it raised.
\<close>

definition cooling :: "'w alert_engine \<Rightarrow> alert_rule \<Rightarrow> real \<Rightarrow> bool" where
  "cooling eng r n1 =
     (case last_trigger_times eng (rule_id r) of
        None \<Rightarrow> False
      | Some t \<Rightarrow> n1 - t < real_of_int (cooldown_seconds r))"

definition triggered_alert :: "alert_rule \<Rightarrow> string \<Rightarrow> real \<Rightarrow> real \<Rightarrow> alert" where
  "triggered_alert r msg v ts =
     \<lparr> a_rule_id = rule_id r, a_alert_type = alert_type r, a_symbol = symbol r,
       a_severity = severity r, message = msg, a_value = v,
       a_threshold = threshold r, timestamp = ts \<rparr>"

fun callback_outcomes :: "'w callback list \<Rightarrow> alert \<Rightarrow> 'w \<Rightarrow> string option list" where
  "callback_outcomes [] a w = []"
| "callback_outcomes (cb # cbs) a w =
     fst (invoke cb a w) # callback_outcomes cbs a (snd (invoke cb a w))"

definition error_lines :: "string option list \<Rightarrow> log_entry list" where
  "error_lines outs =
     map (\<lambda>e. LogError (''Error in alert callback: '' @ the e)) (filter (\<lambda>e. e \<noteq> None) outs)"

section \<open>Properties of the position simulator\<close>

text \<open>
  Closing an open position whose pnl is defined and whose capital peak is not zero returns
  the exit signal, appends one trade and leaves the extreme trackers alone.
\<close>

lemma close_position_open:
  assumes "current_position s = Some pos"
    and "calculate_pnl s sp p1 p2 = Inr (u, u_pct)"
    and "max (peak_capital s) (current_capital s + u) \<noteq> 0"
  shows "\<exists>s'. close_position s z sp p1 p2 ts r = Inr (Some (Exit r u u_pct), s')
      \<and> max_unrealized_profit s' = max_unrealized_profit s
      \<and> max_unrealized_loss s' = max_unrealized_loss s
      \<and> current_position s' = None
      \<and> (\<exists>t. closed_trades s' = closed_trades s @ [t] \<and> pnl t = u
                \<and> max_favorable t = max_unrealized_profit s
                \<and> max_adverse t = max_unrealized_loss s)"
  using assms by (simp add: close_position_def Let_def max_def split: if_splits)

text \<open>
  The outcome of one exit check on an open position, by cases on the four conditions in
  the order of the source.
\<close>

lemma check_exit_signal_core:
  assumes opn: "current_position s = Some pos"
    and upnl: "calculate_pnl s spread p1 p2 = Inr (u, u_pct)"
    and peak: "max (peak_capital s) (current_capital s + u) \<noteq> 0"
  shows "\<exists>sig s'.
      check_exit_signal s z spread p1 p2 ts = Inr (sig, s')
    \<and> max_unrealized_profit s' = max (max_unrealized_profit s) u
    \<and> max_unrealized_loss s' = min (max_unrealized_loss s) u
    \<and> sig =
        (if \<bar>z\<bar> < exit_threshold s then Some (Exit ''Mean reversion complete'' u u_pct)
         else if (direction pos = ''long'' \<and> z > 0) \<or> (direction pos = ''short'' \<and> z < 0)
           then Some (Exit ''Z-score crossed zero'' u u_pct)
         else if u < - (size_usd pos * stop_loss_pct s) then Some (Exit ''Stop loss'' u u_pct)
         else if u > size_usd pos * take_profit_pct s then Some (Exit ''Take profit'' u u_pct)
         else None)
    \<and> (\<bar>z\<bar> < exit_threshold s \<and> u < - (size_usd pos * stop_loss_pct s)
          \<longrightarrow> sig = Some (Exit ''Mean reversion complete'' u u_pct))
    \<and> (sig = None \<longrightarrow> current_position s' = Some pos \<and> closed_trades s' = closed_trades s)
    \<and> (sig \<noteq> None \<longrightarrow> current_position s' = None
          \<and> (\<exists>t. closed_trades s' = closed_trades s @ [t]
                \<and> pnl t = u
                \<and> max_favorable t = max (max_unrealized_profit s) u
                \<and> max_adverse t = min (max_unrealized_loss s) u))"
proof -
  define s1 where "s1 = s\<lparr> max_unrealized_profit := max (max_unrealized_profit s) u,
                            max_unrealized_loss := min (max_unrealized_loss s) u \<rparr>"
  have pos1: "current_position s1 = Some pos" by (simp add: s1_def opn)
  have pnl1: "calculate_pnl s1 spread p1 p2 = Inr (u, u_pct)"
    using upnl by (simp add: calculate_pnl_def s1_def)
  have pk1: "max (peak_capital s1) (current_capital s1 + u) \<noteq> 0"
    using peak by (simp add: s1_def)
  have fld: "max_unrealized_profit s1 = max (max_unrealized_profit s) u"
    "max_unrealized_loss s1 = min (max_unrealized_loss s) u"
    "closed_trades s1 = closed_trades s"
    by (simp_all add: s1_def)
  have cl: "\<exists>s'. close_position s1 z spread p1 p2 ts r = Inr (Some (Exit r u u_pct), s')
      \<and> max_unrealized_profit s' = max (max_unrealized_profit s) u
      \<and> max_unrealized_loss s' = min (max_unrealized_loss s) u
      \<and> current_position s' = None
      \<and> (\<exists>t. closed_trades s' = closed_trades s @ [t] \<and> pnl t = u
                \<and> max_favorable t = max (max_unrealized_profit s) u
                \<and> max_adverse t = min (max_unrealized_loss s) u)" for r
    using close_position_open [OF pos1 pnl1 pk1, of z ts r] by (simp only: fld)
  have unf: "check_exit_signal s z spread p1 p2 ts =
     (if \<bar>z\<bar> < exit_threshold s
        then close_position s1 z spread p1 p2 ts ''Mean reversion complete''
      else if (direction pos = ''long'' \<and> z > 0) \<or> (direction pos = ''short'' \<and> z < 0)
        then close_position s1 z spread p1 p2 ts ''Z-score crossed zero''
      else if u < - (size_usd pos * stop_loss_pct s)
        then close_position s1 z spread p1 p2 ts ''Stop loss''
      else if u > size_usd pos * take_profit_pct s
        then close_position s1 z spread p1 p2 ts ''Take profit''
      else Inr (None, s1))"
    by (simp add: check_exit_signal_def opn upnl Let_def s1_def)
  consider (a) "\<bar>z\<bar> < exit_threshold s"
    | (b) "\<not> \<bar>z\<bar> < exit_threshold s"
          "(direction pos = ''long'' \<and> z > 0) \<or> (direction pos = ''short'' \<and> z < 0)"
    | (c) "\<not> \<bar>z\<bar> < exit_threshold s"
          "\<not> ((direction pos = ''long'' \<and> z > 0) \<or> (direction pos = ''short'' \<and> z < 0))"
          "u < - (size_usd pos * stop_loss_pct s)"
    | (d) "\<not> \<bar>z\<bar> < exit_threshold s"
          "\<not> ((direction pos = ''long'' \<and> z > 0) \<or> (direction pos = ''short'' \<and> z < 0))"
          "\<not> u < - (size_usd pos * stop_loss_pct s)"
          "u > size_usd pos * take_profit_pct s"
    | (e) "\<not> \<bar>z\<bar> < exit_threshold s"
          "\<not> ((direction pos = ''long'' \<and> z > 0) \<or> (direction pos = ''short'' \<and> z < 0))"
          "\<not> u < - (size_usd pos * stop_loss_pct s)"
          "\<not> u > size_usd pos * take_profit_pct s"
    by blast
  then show ?thesis
  proof cases
    case a
    from cl [of "''Mean reversion complete''"] obtain s' where
      "close_position s1 z spread p1 p2 ts ''Mean reversion complete''
         = Inr (Some (Exit ''Mean reversion complete'' u u_pct), s')"
      "max_unrealized_profit s' = max (max_unrealized_profit s) u"
      "max_unrealized_loss s' = min (max_unrealized_loss s) u"
      "current_position s' = None"
      "\<exists>t. closed_trades s' = closed_trades s @ [t] \<and> pnl t = u
                \<and> max_favorable t = max (max_unrealized_profit s) u
                \<and> max_adverse t = min (max_unrealized_loss s) u"
      by blast
    with a show ?thesis by (simp add: unf)
  next
    case b
    from cl [of "''Z-score crossed zero''"] obtain s' where
      "close_position s1 z spread p1 p2 ts ''Z-score crossed zero''
         = Inr (Some (Exit ''Z-score crossed zero'' u u_pct), s')"
      "max_unrealized_profit s' = max (max_unrealized_profit s) u"
      "max_unrealized_loss s' = min (max_unrealized_loss s) u"
      "current_position s' = None"
      "\<exists>t. closed_trades s' = closed_trades s @ [t] \<and> pnl t = u
                \<and> max_favorable t = max (max_unrealized_profit s) u
                \<and> max_adverse t = min (max_unrealized_loss s) u"
      by blast
    moreover have "((direction pos = ''long'' \<and> z > 0) \<or> (direction pos = ''short'' \<and> z < 0)) = True"
      using b(2) by simp
    ultimately show ?thesis using b(1) by (simp add: unf)
  next
    case c
    from cl [of "''Stop loss''"] obtain s' where
      "close_position s1 z spread p1 p2 ts ''Stop loss''
         = Inr (Some (Exit ''Stop loss'' u u_pct), s')"
      "max_unrealized_profit s' = max (max_unrealized_profit s) u"
      "max_unrealized_loss s' = min (max_unrealized_loss s) u"
      "current_position s' = None"
      "\<exists>t. closed_trades s' = closed_trades s @ [t] \<and> pnl t = u
                \<and> max_favorable t = max (max_unrealized_profit s) u
                \<and> max_adverse t = min (max_unrealized_loss s) u"
      by blast
    moreover have "((direction pos = ''long'' \<and> z > 0) \<or> (direction pos = ''short'' \<and> z < 0)) = False"
      using c(2) by simp
    ultimately show ?thesis using c(1,3) by (auto simp add: unf)
  next
    case d
    from cl [of "''Take profit''"] obtain s' where
      "close_position s1 z spread p1 p2 ts ''Take profit''
         = Inr (Some (Exit ''Take profit'' u u_pct), s')"
      "max_unrealized_profit s' = max (max_unrealized_profit s) u"
      "max_unrealized_loss s' = min (max_unrealized_loss s) u"
      "current_position s' = None"
      "\<exists>t. closed_trades s' = closed_trades s @ [t] \<and> pnl t = u
                \<and> max_favorable t = max (max_unrealized_profit s) u
                \<and> max_adverse t = min (max_unrealized_loss s) u"
      by blast
    moreover have "((direction pos = ''long'' \<and> z > 0) \<or> (direction pos = ''short'' \<and> z < 0)) = False"
      using d(2) by simp
    ultimately show ?thesis using d(1,3,4) by (auto simp add: unf)
  next
    case e
    have "((direction pos = ''long'' \<and> z > 0) \<or> (direction pos = ''short'' \<and> z < 0)) = False"
      using e(2) by simp
    then show ?thesis using e(1,3,4) by (auto simp add: unf s1_def opn)
  qed
qed

text \<open>
  Claim C1. For an open position whose unrealized pnl \<open>u\<close> is defined (the entry spread
  and the size are not zero) and whose close does not divide by a zero capital peak,
  \<open>check_exit_signal\<close> returns, and the exit conditions are tried in the order
  (1) \<open>|z| < exit_threshold\<close>, (2) the z-score crossed zero against the direction,
  (3) \<open>u < -(size * stop_loss_pct)\<close>, (4) \<open>u > size * take_profit_pct\<close>: the first
  that holds closes the position and gives the reason of the exit signal; when (1) and (3)
  both hold the reason is mean reversion complete. Whether the position is closed or not,
  the tracker of the maximum becomes the maximum of its old value and \<open>u\<close>, the tracker
  of the minimum the minimum of its old value and \<open>u\<close>, and the trade appended on a close
  records these two values.
\<close>

theorem check_exit_signal_priority:
  assumes opn: "current_position s = Some pos"
    and upnl: "calculate_pnl s spread p1 p2 = Inr (u, u_pct)"
    and peak: "max (peak_capital s) (current_capital s + u) \<noteq> 0"
  shows "\<exists>sig s'.
      check_exit_signal s z spread p1 p2 ts = Inr (sig, s')
    \<and> max_unrealized_profit s' = max (max_unrealized_profit s) u
    \<and> max_unrealized_loss s' = min (max_unrealized_loss s) u
    \<and> sig =
        (if \<bar>z\<bar> < exit_threshold s then Some (Exit ''Mean reversion complete'' u u_pct)
         else if (direction pos = ''long'' \<and> z > 0) \<or> (direction pos = ''short'' \<and> z < 0)
           then Some (Exit ''Z-score crossed zero'' u u_pct)
         else if u < - (size_usd pos * stop_loss_pct s) then Some (Exit ''Stop loss'' u u_pct)
         else if u > size_usd pos * take_profit_pct s then Some (Exit ''Take profit'' u u_pct)
         else None)
    \<and> (\<bar>z\<bar> < exit_threshold s \<and> u < - (size_usd pos * stop_loss_pct s)
          \<longrightarrow> sig = Some (Exit ''Mean reversion complete'' u u_pct))
    \<and> (sig = None \<longrightarrow> current_position s' = Some pos \<and> closed_trades s' = closed_trades s)
    \<and> (sig \<noteq> None \<longrightarrow> current_position s' = None
          \<and> (\<exists>t. closed_trades s' = closed_trades s @ [t]
                \<and> pnl t = u
                \<and> max_favorable t = max (max_unrealized_profit s) u
                \<and> max_adverse t = min (max_unrealized_loss s) u))"
  using assms by (rule check_exit_signal_core)

theorem check_exit_signal_priority_witness:
  "\<exists>s'. check_exit_signal
          (snd (check_entry_signal (PositionSimulator 10000 2 0.2 0.1 0.05 0.1) 2.5 10 100 50 2 0))
          0.1 12 98 49 60
        = Inr (Some (Exit ''Mean reversion complete'' (-200) (-20)), s')
      \<and> max_unrealized_profit s' = 0 \<and> max_unrealized_loss s' = - 200
      \<and> current_position s' = None
      \<and> (\<exists>t. closed_trades s' = [t] \<and> pnl t = - 200
             \<and> max_favorable t = 0 \<and> max_adverse t = - 200)"
  using check_exit_signal_priority
    [of "snd (check_entry_signal (PositionSimulator 10000 2 0.2 0.1 0.05 0.1) 2.5 10 100 50 2 0)"
        "\<lparr> entry_time = 0, entry_zscore = 2.5, entry_spread = 10, entry_price_1 = 100,
           entry_price_2 = 50, direction = ''short'', size_usd = 1000, hedge_ratio = 2 \<rparr>"
        12 98 49 "-200" "-20" "0.1" 60]
  by (simp add: check_entry_signal_def PositionSimulator_def calculate_pnl_def Let_def)

text \<open>
  Claim C2. \<open>check_entry_signal\<close> returns an entry signal if and only if there is no
  open position and \<open>|z| > entry_threshold\<close>; it then stores a position that is short
  for a positive z-score and long otherwise, of size
  \<open>current_capital * position_size_pct\<close>, and sets both trackers to 0; otherwise the
  simulator is unchanged. A simulator created with capital 10000, entry threshold 2.0,
  exit threshold 0.2 and position size 0.10 that is fed the z-score 2.5 at a non-zero
  spread opens a short position of size 1000, and an exit check with z-score 0.1 closes it
  with the reason mean reversion complete, leaving no open position and exactly one closed
  trade.
\<close>

theorem check_entry_signal_opens_iff:
  "(fst (check_entry_signal s z sp p1 p2 h ts) \<noteq> None
      \<longleftrightarrow> current_position s = None \<and> \<bar>z\<bar> > entry_threshold s)
   \<and> (current_position s = None \<and> \<bar>z\<bar> > entry_threshold s \<longrightarrow>
        snd (check_entry_signal s z sp p1 p2 h ts) =
          s\<lparr> current_position := Some
                \<lparr> entry_time = ts, entry_zscore = z, entry_spread = sp,
                  entry_price_1 = p1, entry_price_2 = p2,
                  direction = (if z > 0 then ''short'' else ''long''),
                  size_usd = current_capital s * position_size_pct s,
                  hedge_ratio = h \<rparr>,
             max_unrealized_profit := 0,
             max_unrealized_loss := 0 \<rparr>)
   \<and> (\<not> (current_position s = None \<and> \<bar>z\<bar> > entry_threshold s) \<longrightarrow>
        snd (check_entry_signal s z sp p1 p2 h ts) = s)
   \<and> (sp \<noteq> 0 \<longrightarrow>
        (\<exists>s1 pos u u_pct s2 t.
            check_entry_signal (PositionSimulator 10000 2 0.2 0.1 0.05 0.1) 2.5 sp p1 p2 h ts
              = (Some (Entry ''short'' 2.5), s1)
          \<and> current_position s1 = Some pos \<and> direction pos = ''short'' \<and> size_usd pos = 1000
          \<and> check_exit_signal s1 0.1 sp' p1' p2' ts'
              = Inr (Some (Exit ''Mean reversion complete'' u u_pct), s2)
          \<and> current_position s2 = None
          \<and> closed_trades s2 = [t]))"
proof (intro conjI impI)
  assume sp0: "sp \<noteq> 0"
  let ?s0 = "PositionSimulator 10000 2 0.2 0.1 0.05 0.1"
  let ?pos = "\<lparr> entry_time = ts, entry_zscore = 2.5, entry_spread = sp,
                  entry_price_1 = p1, entry_price_2 = p2,
                  direction = ''short'', size_usd = 1000, hedge_ratio = h \<rparr>"
  let ?s1 = "?s0\<lparr> current_position := Some ?pos,
                   max_unrealized_profit := 0, max_unrealized_loss := 0 \<rparr>"
  have e: "check_entry_signal ?s0 2.5 sp p1 p2 h ts = (Some (Entry ''short'' 2.5), ?s1)"
    by (simp add: check_entry_signal_def PositionSimulator_def Let_def)
  have op: "current_position ?s1 = Some ?pos" by simp
  have "\<exists>u u_pct. calculate_pnl ?s1 sp' p1' p2' = Inr (u, u_pct)"
    using sp0 by (simp add: calculate_pnl_def Let_def)
  then obtain u u_pct where p: "calculate_pnl ?s1 sp' p1' p2' = Inr (u, u_pct)"
    by blast
  have pk: "max (peak_capital ?s1) (current_capital ?s1 + u) \<noteq> 0"
    by (simp add: PositionSimulator_def max_def)
  from check_exit_signal_core [OF op p pk, of "0.1" ts']
  obtain sg s2 where x:
    "check_exit_signal ?s1 0.1 sp' p1' p2' ts' = Inr (sg, s2)"
    "sg = Some (Exit ''Mean reversion complete'' u u_pct)"
    "sg \<noteq> None \<longrightarrow> current_position s2 = None
          \<and> (\<exists>t. closed_trades s2 = closed_trades ?s1 @ [t])"
    by (auto simp add: PositionSimulator_def)
  then obtain t where "current_position s2 = None" "closed_trades s2 = [t]"
    by (auto simp add: PositionSimulator_def)
  with e op x(1,2)
  show "\<exists>s1 pos u u_pct s2 t.
            check_entry_signal ?s0 2.5 sp p1 p2 h ts = (Some (Entry ''short'' 2.5), s1)
          \<and> current_position s1 = Some pos \<and> direction pos = ''short'' \<and> size_usd pos = 1000
          \<and> check_exit_signal s1 0.1 sp' p1' p2' ts'
              = Inr (Some (Exit ''Mean reversion complete'' u u_pct), s2)
          \<and> current_position s2 = None
          \<and> closed_trades s2 = [t]"
    by (intro exI [of _ ?s1] exI [of _ ?pos] exI [of _ u] exI [of _ u_pct] exI [of _ s2] exI [of _ t]) simp
qed (auto simp add: check_entry_signal_def Let_def)

theorem check_entry_signal_opens_iff_witness:
  "fst (check_entry_signal (PositionSimulator 10000 2 0.2 0.1 0.05 0.1) 2.5 10 100 50 2 0) \<noteq> None
   \<and> fst (check_entry_signal (PositionSimulator 10000 2 0.2 0.1 0.05 0.1) 1.5 10 100 50 2 0) = None
   \<and> (\<exists>s1 pos u u_pct s2 t.
          check_entry_signal (PositionSimulator 10000 2 0.2 0.1 0.05 0.1) 2.5 10 100 50 2 0
            = (Some (Entry ''short'' 2.5), s1)
        \<and> current_position s1 = Some pos \<and> direction pos = ''short'' \<and> size_usd pos = 1000
        \<and> check_exit_signal s1 0.1 8 98 49 60
            = Inr (Some (Exit ''Mean reversion complete'' u u_pct), s2)
        \<and> current_position s2 = None
        \<and> closed_trades s2 = [t])"
  using check_entry_signal_opens_iff
      [of "PositionSimulator 10000 2 0.2 0.1 0.05 0.1" "2.5" 10 100 50 2 0 8 98 49 60]
    check_entry_signal_opens_iff
      [of "PositionSimulator 10000 2 0.2 0.1 0.05 0.1" "1.5" 10 100 50 2 0 8 98 49 60]
  by (simp add: PositionSimulator_def)

text \<open>
  With no closed trade \<open>get_performance_metrics\<close> returns the nine items of its first
  \<open>return\<close>; with at least one it returns eleven, \<open>total_return\<close> and
  \<open>peak_capital\<close> among them.
\<close>

lemma get_performance_metrics_empty:
  assumes "closed_trades s = []"
  shows "get_performance_metrics s =
     Inr [ (''total_trades'', PInt 0), (''win_rate'', PFloat 0), (''avg_win'', PFloat 0),
           (''avg_loss'', PFloat 0), (''profit_factor'', PFloat 0), (''sharpe_ratio'', PFloat 0),
           (''max_drawdown'', PFloat 0), (''total_pnl'', PFloat 0),
           (''current_capital'', PFloat (current_capital s)) ]"
  using assms by (simp add: get_performance_metrics_def)

lemma get_performance_metrics_nonempty_keys:
  assumes "closed_trades s \<noteq> []" and "initial_capital s \<noteq> 0"
  shows "\<exists>d. get_performance_metrics s = Inr d
           \<and> map_of d ''total_return'' \<noteq> None \<and> map_of d ''peak_capital'' \<noteq> None"
  using assms by (simp add: get_performance_metrics_def Let_def)

text \<open>
  Claim C5. On a simulator that has closed no trade, \<open>get_performance_metrics\<close> returns
  without error, with \<open>total_trades = 0\<close> and the statistics at zero, but the result has
  no item \<open>total_return\<close> and no item \<open>peak_capital\<close>.
\<close>

theorem get_performance_metrics_fresh_simulator:
  "\<exists>d. get_performance_metrics (PositionSimulator 10000 2 0.2 0.1 0.05 0.1) = Inr d
      \<and> map_of d ''total_trades'' = Some (PInt 0)
      \<and> map_of d ''win_rate'' = Some (PFloat 0)
      \<and> map_of d ''avg_win'' = Some (PFloat 0)
      \<and> map_of d ''avg_loss'' = Some (PFloat 0)
      \<and> map_of d ''profit_factor'' = Some (PFloat 0)
      \<and> map_of d ''sharpe_ratio'' = Some (PFloat 0)
      \<and> map_of d ''max_drawdown'' = Some (PFloat 0)
      \<and> map_of d ''total_pnl'' = Some (PFloat 0)
      \<and> map_of d ''current_capital'' = Some (PFloat 10000)
      \<and> map_of d ''total_return'' = None
      \<and> map_of d ''peak_capital'' = None"
  by (simp add: get_performance_metrics_def PositionSimulator_def)

section \<open>Properties of the risk analytics\<close>

text \<open>
  Whatever the quotient in \<open>calculate_kelly_criterion\<close> is, a call that returns gives
  a finite value between 0 and 0.25: NaN and minus infinity are clamped to 0, plus
  infinity to 0.25.
\<close>

lemma kelly_zero_cases:
  "avg_loss = Fin 0 \<or> win_rate = Fin 0
     \<Longrightarrow> calculate_kelly_criterion win_rate avg_win avg_loss = Inr (Fin 0)"
  by (simp add: calculate_kelly_criterion_def)

lemma clamp_bounded:
  "\<exists>r. py_max (Fin 0) (py_min k (Fin 0.25)) = Fin r \<and> 0 \<le> r \<and> r \<le> 0.25"
proof (cases k)
  case (Fin x)
  show ?thesis
  proof (cases "1 / 4 < x")
    case True
    with Fin have "py_max (Fin 0) (py_min k (Fin 0.25)) = Fin (1 / 4)"
      by (simp add: py_max_def py_min_def)
    then show ?thesis by (intro exI [of _ "1 / 4"]) simp
  next
    case False
    with Fin have "py_max (Fin 0) (py_min k (Fin 0.25)) = (if 0 < x then Fin x else Fin 0)"
      by (simp add: py_max_def py_min_def)
    with False show ?thesis by simp
  qed
next
  case PosInf
  then have "py_max (Fin 0) (py_min k (Fin 0.25)) = Fin (1 / 4)"
    by (simp add: py_max_def py_min_def)
  then show ?thesis by (intro exI [of _ "1 / 4"]) simp
qed (simp_all add: py_max_def py_min_def)

lemma kelly_returns_bounded:
  assumes "calculate_kelly_criterion win_rate avg_win avg_loss = Inr k"
  shows "\<exists>r. k = Fin r \<and> 0 \<le> r \<and> r \<le> 0.25"
proof -
  from assms have "k = Fin 0 \<or> (\<exists>x. k = py_max (Fin 0) (py_min x (Fin 0.25)))"
    unfolding calculate_kelly_criterion_def Let_def
    by (auto split: if_splits sum.splits)
  with clamp_bounded show ?thesis by force
qed

lemma fl_underflow: "\<bar>x\<bar> \<le> 1 / 2 ^ 1075 \<Longrightarrow> fl x = Fin 0"
proof -
  assume a: "\<bar>x\<bar> \<le> 1 / 2 ^ 1075"
  have "(1::real) / 2 ^ 1075 < 2 ^ 1024 - 2 ^ 970" by simp
  with a have "\<not> \<bar>x\<bar> \<ge> 2 ^ 1024 - 2 ^ 970" by linarith
  with a show ?thesis by (simp add: fl_def)
qed

lemma tiny_quotient: "\<bar>(1 / 10 ^ 200) / 10 ^ 200 :: real\<bar> \<le> 1 / 2 ^ 1075"
  by simp

lemma fl_overflow: "x \<ge> 2 ^ 1024 - 2 ^ 970 \<Longrightarrow> fl x = PosInf"
proof -
  assume a: "x \<ge> 2 ^ 1024 - 2 ^ 970"
  have "(0::real) < 2 ^ 1024 - 2 ^ 970" by simp
  with a have "x > 0" "\<bar>x\<bar> \<ge> 2 ^ 1024 - 2 ^ 970" by linarith+
  then show ?thesis by (simp add: fl_def)
qed

lemma huge_quotient: "(10 ^ 200 / (1 / 10 ^ 200) :: real) \<ge> 2 ^ 1024 - 2 ^ 970"
  by simp

text \<open>
  Claim C8. The claim promises a value between 0 and 0.25 whenever the average loss and
  the win rate are not zero. The function raises instead when the float quotient of the
  average win by the average loss is zero: for the Python floats \<open>(0.5, 0.0, 1.0)\<close>, and
  for \<open>(0.5, 1e-200, 1e200)\<close>, a win rate in [0, 1] with a positive average win and a
  positive average loss, where the quotient underflows.
\<close>

theorem kelly_zero_ratio_raises:
  "calculate_kelly_criterion (Fin 0.5) (Fin 0) (Fin 1) = Inl ZeroDivisionError
   \<and> calculate_kelly_criterion (Fin 0.5) (Fin (1 / 10 ^ 200)) (Fin (10 ^ 200))
       = Inl ZeroDivisionError"
proof
  have "fl 0 = Fin 0" by (rule fl_underflow) simp
  then show "calculate_kelly_criterion (Fin 0.5) (Fin 0) (Fin 1) = Inl ZeroDivisionError"
    by (simp add: calculate_kelly_criterion_def py_truediv_def)
next
  have "fl ((1 / 10 ^ 200) / \<bar>10 ^ 200\<bar>) = Fin 0"
    using tiny_quotient by (intro fl_underflow) simp
  then show "calculate_kelly_criterion (Fin 0.5) (Fin (1 / 10 ^ 200)) (Fin (10 ^ 200))
       = Inl ZeroDivisionError"
    by (simp add: calculate_kelly_criterion_def py_truediv_def)
qed

text \<open>
  A quotient that overflows makes the fraction NaN, which is clamped to 0; an ordinary
  input gives the value of the formula.
\<close>

lemma kelly_overflow_returns_zero:
  "calculate_kelly_criterion (Fin 0.5) (Fin (10 ^ 200)) (Fin (1 / 10 ^ 200)) = Inr (Fin 0)"
proof -
  have "fl (10 ^ 200 / \<bar>1 / 10 ^ 200\<bar>) = PosInf"
    using huge_quotient by (intro fl_overflow) simp
  moreover have "fl (1 - 1 / 2) = Fin (1 / 2)" by (simp add: fl_def)
  ultimately show ?thesis
    by (simp add: calculate_kelly_criterion_def py_truediv_def py_max_def py_min_def)
qed

lemma kelly_ordinary_value:
  "calculate_kelly_criterion (Fin 0.6) (Fin 1) (Fin 1) = Inr (Fin 0.2)"
proof -
  have s: "fl x = Fin x" if "1 / 10 \<le> \<bar>x\<bar>" "\<bar>x\<bar> \<le> 10" for x
  proof -
    have "(10::real) < 2 ^ 1024 - 2 ^ 970" "(1::real) / 2 ^ 1075 < 1 / 10" by simp_all
    with that show ?thesis by (simp add: fl_def)
  qed
  have "fl 1 = Fin 1" "fl (2 / 5) = Fin (2 / 5)" "fl (3 / 5) = Fin (3 / 5)"
    "fl (1 / 5) = Fin (1 / 5)"
    by (simp_all add: s)
  then show ?thesis
    by (simp add: calculate_kelly_criterion_def py_truediv_def py_max_def py_min_def)
qed

lemma drawdown_score_antimono: "d1 \<le> d2 \<Longrightarrow> drawdown_score d2 \<le> drawdown_score d1"
  by (auto simp add: drawdown_score_def max_def field_simps)

lemma sharpe_score_mono:
  "num_of v1 = Some s1 \<Longrightarrow> num_of v2 = Some s2 \<Longrightarrow> s1 \<le> s2
     \<Longrightarrow> sharpe_score v1 \<le> sharpe_score v2"
  by (auto simp add: sharpe_score_def max_def field_simps)

lemma health_score_value:
  assumes "calculate_portfolio_health_score rm = Inr h"
  shows "\<exists>d u. num_of (dict_get rm ''current_drawdown_pct'' (PInt 0)) = Some d
             \<and> num_of (dict_get rm ''risk_utilization'' (PInt 0)) = Some u
             \<and> health_score h = drawdown_score d * 0.40
                  + sharpe_score (dict_get rm ''sharpe_ratio'' (PInt 0)) * 0.35
                  + utilization_score u * 0.25"
  using assms
  by (auto simp add: calculate_portfolio_health_score_def Let_def split: option.splits)

lemma health_score_returns:
  assumes "num_of (dict_get rm ''current_drawdown_pct'' (PInt 0)) = Some d"
    and "num_of (dict_get rm ''risk_utilization'' (PInt 0)) = Some u"
  shows "\<exists>h. calculate_portfolio_health_score rm = Inr h
             \<and> health_score h = drawdown_score d * 0.40
                  + sharpe_score (dict_get rm ''sharpe_ratio'' (PInt 0)) * 0.35
                  + utilization_score u * 0.25"
  using assms
  by (simp add: calculate_portfolio_health_score_def Let_def)

text \<open>
  Claim C9. Let two risk-metric dictionaries agree on every key but
  \<open>current_drawdown_pct\<close>, where both hold numbers (or lack the key, which counts as 0):
  if the health score of the one with the smaller drawdown is computed, so is the other
  one's, and it is not larger. Let them agree on every key but \<open>sharpe_ratio\<close>, where
  both hold numbers: the health score of the one with the larger Sharpe ratio is computed
  too and is not smaller.
\<close>

theorem health_score_monotone:
  "((\<forall>k. k \<noteq> ''current_drawdown_pct'' \<longrightarrow> r1 k = r2 k)
      \<and> num_of (dict_get r1 ''current_drawdown_pct'' (PInt 0)) = Some d1
      \<and> num_of (dict_get r2 ''current_drawdown_pct'' (PInt 0)) = Some d2
      \<and> d1 \<le> d2
      \<and> calculate_portfolio_health_score r1 = Inr h1
     \<longrightarrow> (\<exists>h2. calculate_portfolio_health_score r2 = Inr h2
              \<and> health_score h2 \<le> health_score h1))
   \<and> ((\<forall>k. k \<noteq> ''sharpe_ratio'' \<longrightarrow> r1 k = r3 k)
      \<and> num_of (dict_get r1 ''sharpe_ratio'' (PInt 0)) = Some s1
      \<and> num_of (dict_get r3 ''sharpe_ratio'' (PInt 0)) = Some s3
      \<and> s1 \<le> s3
      \<and> calculate_portfolio_health_score r1 = Inr h1
     \<longrightarrow> (\<exists>h3. calculate_portfolio_health_score r3 = Inr h3
              \<and> health_score h1 \<le> health_score h3))"
proof (intro conjI impI)
  assume a: "(\<forall>k. k \<noteq> ''current_drawdown_pct'' \<longrightarrow> r1 k = r2 k)
      \<and> num_of (dict_get r1 ''current_drawdown_pct'' (PInt 0)) = Some d1
      \<and> num_of (dict_get r2 ''current_drawdown_pct'' (PInt 0)) = Some d2
      \<and> d1 \<le> d2
      \<and> calculate_portfolio_health_score r1 = Inr h1"
  then have same: "dict_get r2 ''risk_utilization'' (PInt 0) = dict_get r1 ''risk_utilization'' (PInt 0)"
    "dict_get r2 ''sharpe_ratio'' (PInt 0) = dict_get r1 ''sharpe_ratio'' (PInt 0)"
    by (simp_all add: dict_get_def)
  from a health_score_value [of r1 h1] obtain u where
    u: "num_of (dict_get r1 ''risk_utilization'' (PInt 0)) = Some u"
    and h1: "health_score h1 = drawdown_score d1 * 0.40
                  + sharpe_score (dict_get r1 ''sharpe_ratio'' (PInt 0)) * 0.35
                  + utilization_score u * 0.25"
    by auto
  have d2: "num_of (dict_get r2 ''current_drawdown_pct'' (PInt 0)) = Some d2"
    using a by simp
  have u2: "num_of (dict_get r2 ''risk_utilization'' (PInt 0)) = Some u"
    using u same by simp
  from health_score_returns [OF d2 u2] same obtain h2 where
    h2: "calculate_portfolio_health_score r2 = Inr h2"
    "health_score h2 = drawdown_score d2 * 0.40
                  + sharpe_score (dict_get r1 ''sharpe_ratio'' (PInt 0)) * 0.35
                  + utilization_score u * 0.25"
    by auto
  have "drawdown_score d2 \<le> drawdown_score d1"
    using a by (simp add: drawdown_score_antimono)
  with h1 h2 show "\<exists>h2. calculate_portfolio_health_score r2 = Inr h2
              \<and> health_score h2 \<le> health_score h1"
    by simp
next
  assume a: "(\<forall>k. k \<noteq> ''sharpe_ratio'' \<longrightarrow> r1 k = r3 k)
      \<and> num_of (dict_get r1 ''sharpe_ratio'' (PInt 0)) = Some s1
      \<and> num_of (dict_get r3 ''sharpe_ratio'' (PInt 0)) = Some s3
      \<and> s1 \<le> s3
      \<and> calculate_portfolio_health_score r1 = Inr h1"
  then have same: "dict_get r3 ''risk_utilization'' (PInt 0) = dict_get r1 ''risk_utilization'' (PInt 0)"
    "dict_get r3 ''current_drawdown_pct'' (PInt 0) = dict_get r1 ''current_drawdown_pct'' (PInt 0)"
    by (simp_all add: dict_get_def)
  from a health_score_value [of r1 h1] obtain d u where
    d: "num_of (dict_get r1 ''current_drawdown_pct'' (PInt 0)) = Some d"
    and u: "num_of (dict_get r1 ''risk_utilization'' (PInt 0)) = Some u"
    and h1: "health_score h1 = drawdown_score d * 0.40
                  + sharpe_score (dict_get r1 ''sharpe_ratio'' (PInt 0)) * 0.35
                  + utilization_score u * 0.25"
    by auto
  have d3: "num_of (dict_get r3 ''current_drawdown_pct'' (PInt 0)) = Some d"
    and u3: "num_of (dict_get r3 ''risk_utilization'' (PInt 0)) = Some u"
    using d u same by simp_all
  from health_score_returns [OF d3 u3] obtain h3 where
    h3: "calculate_portfolio_health_score r3 = Inr h3"
    "health_score h3 = drawdown_score d * 0.40
                  + sharpe_score (dict_get r3 ''sharpe_ratio'' (PInt 0)) * 0.35
                  + utilization_score u * 0.25"
    by auto
  have "sharpe_score (dict_get r1 ''sharpe_ratio'' (PInt 0))
          \<le> sharpe_score (dict_get r3 ''sharpe_ratio'' (PInt 0))"
    using a sharpe_score_mono by blast
  with h1 h3 show "\<exists>h3. calculate_portfolio_health_score r3 = Inr h3
              \<and> health_score h1 \<le> health_score h3"
    by simp
qed

theorem health_score_monotone_witness:
  "\<exists>h1 h2 g2.
      calculate_portfolio_health_score
        [''current_drawdown_pct'' \<mapsto> PFloat 3, ''sharpe_ratio'' \<mapsto> PFloat 1.5,
         ''risk_utilization'' \<mapsto> PFloat 60] = Inr h1
    \<and> calculate_portfolio_health_score
        [''current_drawdown_pct'' \<mapsto> PFloat 12, ''sharpe_ratio'' \<mapsto> PFloat 1.5,
         ''risk_utilization'' \<mapsto> PFloat 60] = Inr h2
    \<and> calculate_portfolio_health_score
        [''current_drawdown_pct'' \<mapsto> PFloat 3, ''sharpe_ratio'' \<mapsto> PFloat 2.5,
         ''risk_utilization'' \<mapsto> PFloat 60] = Inr g2
    \<and> health_score h2 \<le> health_score h1 \<and> health_score h1 \<le> health_score g2"
proof -
  let ?r1 = "[''current_drawdown_pct'' \<mapsto> PFloat 3, ''sharpe_ratio'' \<mapsto> PFloat 1.5,
         ''risk_utilization'' \<mapsto> PFloat 60]"
  let ?r2 = "[''current_drawdown_pct'' \<mapsto> PFloat 12, ''sharpe_ratio'' \<mapsto> PFloat 1.5,
         ''risk_utilization'' \<mapsto> PFloat 60]"
  let ?r3 = "[''current_drawdown_pct'' \<mapsto> PFloat 3, ''sharpe_ratio'' \<mapsto> PFloat 2.5,
         ''risk_utilization'' \<mapsto> PFloat 60]"
  obtain h1 where h1: "calculate_portfolio_health_score ?r1 = Inr h1"
    by (simp add: calculate_portfolio_health_score_def dict_get_def Let_def)
  have agree2: "\<forall>k. k \<noteq> ''current_drawdown_pct'' \<longrightarrow> ?r1 k = ?r2 k" by simp
  have agree3: "\<forall>k. k \<noteq> ''sharpe_ratio'' \<longrightarrow> ?r1 k = ?r3 k" by simp
  have n: "num_of (dict_get ?r1 ''current_drawdown_pct'' (PInt 0)) = Some 3"
    "num_of (dict_get ?r2 ''current_drawdown_pct'' (PInt 0)) = Some 12"
    "num_of (dict_get ?r1 ''sharpe_ratio'' (PInt 0)) = Some 1.5"
    "num_of (dict_get ?r3 ''sharpe_ratio'' (PInt 0)) = Some 2.5"
    by (simp_all add: dict_get_def)
  from health_score_monotone [of ?r1 ?r2 3 12 h1 ?r3 "1.5" "2.5"] agree2 agree3 n h1
  obtain h2 g2 where "calculate_portfolio_health_score ?r2 = Inr h2"
    "health_score h2 \<le> health_score h1"
    "calculate_portfolio_health_score ?r3 = Inr g2"
    "health_score h1 \<le> health_score g2"
    by auto
  with h1 show ?thesis by blast
qed

section \<open>Properties of the alert engine\<close>

text \<open>
  The loop over the callbacks calls each of them once, in the order of the list, whatever
  the earlier ones did, and logs one line for each that raised.
\<close>

lemma run_callbacks_world:
  "fst (run_callbacks cbs a w) = foldl (\<lambda>acc cb. snd (invoke cb a acc)) w cbs"
proof (induction cbs arbitrary: w)
  case Nil
  show ?case by simp
next
  case (Cons cb cbs)
  obtain r w1 where i: "invoke cb a w = (r, w1)" by (cases "invoke cb a w")
  show ?case
  proof (cases r)
    case None
    with i Cons show ?thesis by simp
  next
    case (Some e)
    with i Cons [of w1] show ?thesis by (simp add: split_beta)
  qed
qed

lemma run_callbacks_logs:
  "snd (run_callbacks cbs a w) = error_lines (callback_outcomes cbs a w)"
proof (induction cbs arbitrary: w)
  case Nil
  show ?case by (simp add: error_lines_def)
next
  case (Cons cb cbs)
  obtain r w1 where i: "invoke cb a w = (r, w1)" by (cases "invoke cb a w")
  show ?case
  proof (cases r)
    case None
    with i Cons [of w1] show ?thesis by (simp add: error_lines_def)
  next
    case (Some e)
    with i Cons [of w1] show ?thesis by (simp add: split_beta error_lines_def)
  qed
qed

lemma length_callback_outcomes: "length (callback_outcomes cbs a w) = length cbs"
  by (induction cbs arbitrary: w) simp_all

lemma check_rule_disabled:
  "\<not> enabled r \<Longrightarrow> check_rule fmt n1 n2 n3 eng w r v data = Inr (None, eng, w, [])"
  by (simp add: check_rule_def)

lemma check_rule_cooldown:
  assumes "last_trigger_times eng (rule_id r) = Some t"
    and "n1 - t < real_of_int (cooldown_seconds r)"
  shows "check_rule fmt n1 n2 n3 eng w r v data = Inr (None, eng, w, [])"
  using assms by (simp add: check_rule_def)

lemma check_rule_fires:
  assumes "enabled r" and "\<not> cooling eng r n1"
    and "condition r v (threshold r) data = Inr True"
    and "fmt (message_template r) (symbol r) v (threshold r) = Inr msg"
  shows "check_rule fmt n1 n2 n3 eng w r v data =
     Inr (Some \<lparr> a_rule_id = rule_id r, a_alert_type = alert_type r, a_symbol = symbol r,
                 a_severity = severity r, message = msg, a_value = v,
                 a_threshold = threshold r, timestamp = n2 \<rparr>,
          eng\<lparr> last_trigger_times := (last_trigger_times eng)(rule_id r \<mapsto> n3),
               alert_history := alert_history eng
                  @ [\<lparr> a_rule_id = rule_id r, a_alert_type = alert_type r, a_symbol = symbol r,
                       a_severity = severity r, message = msg, a_value = v,
                       a_threshold = threshold r, timestamp = n2 \<rparr>] \<rparr>,
          fst (run_callbacks (callbacks eng)
                 \<lparr> a_rule_id = rule_id r, a_alert_type = alert_type r, a_symbol = symbol r,
                   a_severity = severity r, message = msg, a_value = v,
                   a_threshold = threshold r, timestamp = n2 \<rparr> w),
          snd (run_callbacks (callbacks eng)
                 \<lparr> a_rule_id = rule_id r, a_alert_type = alert_type r, a_symbol = symbol r,
                   a_severity = severity r, message = msg, a_value = v,
                   a_threshold = threshold r, timestamp = n2 \<rparr> w)
            @ [LogWarning (''ALERT: '' @ msg)])"
  using assms by (simp add: check_rule_def cooling_def Let_def split_beta)

lemma check_rule_triggers:
  assumes "enabled r" and "\<not> cooling eng r n1"
    and "condition r v (threshold r) data = Inr True"
    and "fmt (message_template r) (symbol r) v (threshold r) = Inr msg"
  shows "check_rule fmt n1 n2 n3 eng w r v data =
     Inr (Some (triggered_alert r msg v n2),
          eng\<lparr> last_trigger_times := (last_trigger_times eng)(rule_id r \<mapsto> n3),
               alert_history := alert_history eng @ [triggered_alert r msg v n2] \<rparr>,
          foldl (\<lambda>acc cb. snd (invoke cb (triggered_alert r msg v n2) acc)) w (callbacks eng),
          error_lines (callback_outcomes (callbacks eng) (triggered_alert r msg v n2) w)
            @ [LogWarning (''ALERT: '' @ msg)])"
  unfolding triggered_alert_def run_callbacks_world [symmetric] run_callbacks_logs [symmetric]
  using assms by (rule check_rule_fires)

lemma check_rule_fired_sets_last_trigger:
  assumes "check_rule fmt n1 n2 n3 eng w r v data = Inr (Some a, eng1, w1, l1)"
  shows "last_trigger_times eng1 (rule_id r) = Some n3
       \<and> alert_history eng1 = alert_history eng @ [a] \<and> timestamp a = n2
       \<and> rules eng1 = rules eng \<and> callbacks eng1 = callbacks eng"
  using assms
  by (auto simp add: check_rule_def Let_def split_beta
           split: if_splits option.splits sum.splits)

text \<open>
  Claim C3. \<open>check_rule\<close> returns no alert and changes nothing when the rule is
  disabled, when the rule is within its cooldown and when the condition is false. When the
  condition raises, the exception is not propagated: the call returns no alert, changes
  nothing and logs one error line. When the rule triggers and the template is formatted
  to a message, the call returns the alert built from the rule, the message, the value and
  the threshold; the last trigger time of the rule id is set; the alert is appended to the
  history; every callback is called once, in the order of registration, on the state the
  callbacks before it left, whether or not they raised; each exception of a callback is
  logged.
\<close>

theorem check_rule_outcomes:
  "(\<not> enabled r \<longrightarrow> check_rule fmt n1 n2 n3 eng w r v data = Inr (None, eng, w, []))
   \<and> (cooling eng r n1 \<longrightarrow> check_rule fmt n1 n2 n3 eng w r v data = Inr (None, eng, w, []))
   \<and> (enabled r \<and> \<not> cooling eng r n1 \<and> condition r v (threshold r) data = Inr False \<longrightarrow>
        check_rule fmt n1 n2 n3 eng w r v data = Inr (None, eng, w, []))
   \<and> (enabled r \<and> \<not> cooling eng r n1 \<and> condition r v (threshold r) data = Inl e \<longrightarrow>
        check_rule fmt n1 n2 n3 eng w r v data =
          Inr (None, eng, w, [LogError (''Error evaluating rule '' @ rule_id r @ '': '' @ e)]))
   \<and> (enabled r \<and> \<not> cooling eng r n1 \<and> condition r v (threshold r) data = Inr True
        \<and> fmt (message_template r) (symbol r) v (threshold r) = Inr msg \<longrightarrow>
        check_rule fmt n1 n2 n3 eng w r v data =
          Inr (Some (triggered_alert r msg v n2),
               eng\<lparr> last_trigger_times := (last_trigger_times eng)(rule_id r \<mapsto> n3),
                    alert_history := alert_history eng @ [triggered_alert r msg v n2] \<rparr>,
               foldl (\<lambda>acc cb. snd (invoke cb (triggered_alert r msg v n2) acc)) w (callbacks eng),
               error_lines (callback_outcomes (callbacks eng) (triggered_alert r msg v n2) w)
                 @ [LogWarning (''ALERT: '' @ msg)])
        \<and> length (callback_outcomes (callbacks eng) (triggered_alert r msg v n2) w)
            = length (callbacks eng))"
proof (intro conjI impI)
  show "check_rule fmt n1 n2 n3 eng w r v data = Inr (None, eng, w, [])" if "\<not> enabled r"
    using that by (rule check_rule_disabled)
  show "check_rule fmt n1 n2 n3 eng w r v data = Inr (None, eng, w, [])" if "cooling eng r n1"
    using that by (auto simp add: cooling_def check_rule_def split: option.splits)
  show "check_rule fmt n1 n2 n3 eng w r v data = Inr (None, eng, w, [])"
    if "enabled r \<and> \<not> cooling eng r n1 \<and> condition r v (threshold r) data = Inr False"
    using that by (simp add: cooling_def check_rule_def)
  show "check_rule fmt n1 n2 n3 eng w r v data =
          Inr (None, eng, w, [LogError (''Error evaluating rule '' @ rule_id r @ '': '' @ e)])"
    if "enabled r \<and> \<not> cooling eng r n1 \<and> condition r v (threshold r) data = Inl e"
    using that by (simp add: cooling_def check_rule_def)
  show "check_rule fmt n1 n2 n3 eng w r v data =
          Inr (Some (triggered_alert r msg v n2),
               eng\<lparr> last_trigger_times := (last_trigger_times eng)(rule_id r \<mapsto> n3),
                    alert_history := alert_history eng @ [triggered_alert r msg v n2] \<rparr>,
               foldl (\<lambda>acc cb. snd (invoke cb (triggered_alert r msg v n2) acc)) w (callbacks eng),
               error_lines (callback_outcomes (callbacks eng) (triggered_alert r msg v n2) w)
                 @ [LogWarning (''ALERT: '' @ msg)])"
    if "enabled r \<and> \<not> cooling eng r n1 \<and> condition r v (threshold r) data = Inr True
        \<and> fmt (message_template r) (symbol r) v (threshold r) = Inr msg"
    using that by (simp add: check_rule_triggers)
  show "length (callback_outcomes (callbacks eng) (triggered_alert r msg v n2) w)
            = length (callbacks eng)"
    by (rule length_callback_outcomes)
qed

theorem check_rule_outcomes_witness:
  "check_rule (\<lambda>t s v th. Inr t) 0 0 0
      (register_callback
         (register_callback (AlertEngine 0.5)
            (SyncCallback (\<lambda>a w. (Some ''boom'', w @ [1::nat]))))
         (AsyncCallback (\<lambda>a w. (None, w @ [2]))))
      [] (zscore_threshold_alert ''test-pair'' 2 ''2.0'' WARNING) 2.5 None
   = Inr (Some (triggered_alert (zscore_threshold_alert ''test-pair'' 2 ''2.0'' WARNING)
                  ''Z-score for {symbol} = {value:.2f} (threshold: {threshold})'' 2.5 0),
          \<lparr> check_interval = 0.5, rules = Map.empty,
            alert_history =
              [triggered_alert (zscore_threshold_alert ''test-pair'' 2 ''2.0'' WARNING)
                 ''Z-score for {symbol} = {value:.2f} (threshold: {threshold})'' 2.5 0],
            last_trigger_times = [''zscore_test-pair_2.0'' \<mapsto> 0],
            callbacks = [SyncCallback (\<lambda>a w. (Some ''boom'', w @ [1::nat])),
                         AsyncCallback (\<lambda>a w. (None, w @ [2]))],
            running = False \<rparr>,
          [1, 2],
          [LogError ''Error in alert callback: boom'',
           LogWarning ''ALERT: Z-score for {symbol} = {value:.2f} (threshold: {threshold})''])
   \<and> check_rule (\<lambda>t s v th. Inr t) 0 0 0 (AlertEngine 0.5) ([]::nat list)
        ((zscore_threshold_alert ''test-pair'' 2 ''2.0'' WARNING)
           \<lparr> condition := (\<lambda>v th d. Inl ''bad data'') \<rparr>) 2.5 None
     = Inr (None, AlertEngine 0.5, [],
            [LogError ''Error evaluating rule zscore_test-pair_2.0: bad data''])"
  using check_rule_outcomes
    [of "zscore_threshold_alert ''test-pair'' 2 ''2.0'' WARNING" "\<lambda>t s v th. Inr t" 0 0 0
        "register_callback
           (register_callback (AlertEngine 0.5)
              (SyncCallback (\<lambda>a w. (Some ''boom'', w @ [1::nat]))))
           (AsyncCallback (\<lambda>a w. (None, w @ [2])))"
        "[]" "2.5" None "''x''"
        "''Z-score for {symbol} = {value:.2f} (threshold: {threshold})''"]
    check_rule_outcomes
    [of "(zscore_threshold_alert ''test-pair'' 2 ''2.0'' WARNING)
           \<lparr> condition := (\<lambda>v th d. Inl ''bad data'') \<rparr>" "\<lambda>t s v th. Inr t" 0 0 0
        "AlertEngine 0.5" "[]::nat list" "2.5" None "''bad data''" "''m''"]
  by (simp add: zscore_threshold_alert_def zscore_above_def cooling_def AlertEngine_def
        register_callback_def error_lines_def)

text \<open>
  Claim C4. When a last trigger time is recorded for the rule id and less than
  \<open>cooldown_seconds\<close> have passed since, \<open>check_rule\<close> returns no alert and changes
  nothing; once at least \<open>cooldown_seconds\<close> have passed, an enabled rule whose condition
  holds fires again. For the z-score rule of the builder (cooldown 60 seconds, threshold 2)
  on an engine with no trigger recorded for it and an empty history: the value 2.5 fires
  at \<open>t0\<close>; the value 3.0 does not fire at \<open>t0 + 30\<close> and fires at \<open>t0 + 61\<close>; and
  the alerts of the last 5 minutes, asked for less than 5 minutes after \<open>t0\<close>, are
  exactly the first alert.
\<close>

theorem cooldown_blocks_refire:
  "(last_trigger_times eng (rule_id r) = Some t \<and> n1 - t < real_of_int (cooldown_seconds r)
      \<longrightarrow> check_rule fmt n1 n2 n3 eng w r v data = Inr (None, eng, w, []))
   \<and> (last_trigger_times eng (rule_id r) = Some t \<and> n1 - t \<ge> real_of_int (cooldown_seconds r)
       \<and> enabled r \<and> condition r v (threshold r) data = Inr True
       \<and> fmt (message_template r) (symbol r) v (threshold r) = Inr msg
      \<longrightarrow> (\<exists>eng' w' l. check_rule fmt n1 n2 n3 eng w r v data
                         = Inr (Some (triggered_alert r msg v n2), eng', w', l)))
   \<and> (last_trigger_times eng0 (rule_id (zscore_threshold_alert sy 2 shown sev)) = None
       \<and> alert_history eng0 = []
       \<and> fmt (message_template (zscore_threshold_alert sy 2 shown sev)) sy 2.5 2 = Inr m1
       \<and> fmt (message_template (zscore_threshold_alert sy 2 shown sev)) sy 3 2 = Inr m2
      \<longrightarrow> (\<exists>eng1 w1 l1.
             check_rule fmt t0 t0 t0 eng0 w0 (zscore_threshold_alert sy 2 shown sev) 2.5 data
               = Inr (Some (triggered_alert (zscore_threshold_alert sy 2 shown sev) m1 2.5 t0),
                      eng1, w1, l1)
           \<and> check_rule fmt (t0 + 30) n2 n3 eng1 w1 (zscore_threshold_alert sy 2 shown sev) 3 data
               = Inr (None, eng1, w1, [])
           \<and> (\<exists>eng2 w2 l2.
                 check_rule fmt (t0 + 61) n2 n3 eng1 w1 (zscore_threshold_alert sy 2 shown sev) 3 data
                   = Inr (Some (triggered_alert (zscore_threshold_alert sy 2 shown sev) m2 3 n2),
                          eng2, w2, l2))
           \<and> (tq < t0 + 300 \<longrightarrow>
                 get_recent_alerts eng1 5 tq
                   = [triggered_alert (zscore_threshold_alert sy 2 shown sev) m1 2.5 t0])))"
proof (intro conjI impI)
  assume "last_trigger_times eng (rule_id r) = Some t \<and> n1 - t < real_of_int (cooldown_seconds r)"
  then show "check_rule fmt n1 n2 n3 eng w r v data = Inr (None, eng, w, [])"
    by (simp add: check_rule_cooldown)
next
  assume a: "last_trigger_times eng (rule_id r) = Some t
       \<and> n1 - t \<ge> real_of_int (cooldown_seconds r)
       \<and> enabled r \<and> condition r v (threshold r) data = Inr True
       \<and> fmt (message_template r) (symbol r) v (threshold r) = Inr msg"
  then have "\<not> cooling eng r n1" by (simp add: cooling_def)
  with a show "\<exists>eng' w' l. check_rule fmt n1 n2 n3 eng w r v data
                         = Inr (Some (triggered_alert r msg v n2), eng', w', l)"
    by (simp add: check_rule_triggers)
next
  let ?z = "zscore_threshold_alert sy 2 shown sev"
  assume a: "last_trigger_times eng0 (rule_id ?z) = None \<and> alert_history eng0 = []
       \<and> fmt (message_template ?z) sy 2.5 2 = Inr m1
       \<and> fmt (message_template ?z) sy 3 2 = Inr m2"
  have z: "enabled ?z" "symbol ?z = sy" "threshold ?z = 2" "cooldown_seconds ?z = 60"
    "condition ?z = zscore_above"
    by (simp_all add: zscore_threshold_alert_def)
  let ?a1 = "triggered_alert ?z m1 2.5 t0"
  let ?eng1 = "eng0\<lparr> last_trigger_times := (last_trigger_times eng0)(rule_id ?z \<mapsto> t0),
                      alert_history := alert_history eng0 @ [?a1] \<rparr>"
  let ?w1 = "foldl (\<lambda>acc cb. snd (invoke cb ?a1 acc)) w0 (callbacks eng0)"
  have c0: "\<not> cooling eng0 ?z t0" using a by (simp add: cooling_def)
  have first: "check_rule fmt t0 t0 t0 eng0 w0 ?z 2.5 data =
      Inr (Some ?a1, ?eng1, ?w1,
           error_lines (callback_outcomes (callbacks eng0) ?a1 w0) @ [LogWarning (''ALERT: '' @ m1)])"
    using a c0 z by (intro check_rule_triggers) (simp_all add: zscore_above_def)
  have lt: "last_trigger_times ?eng1 (rule_id ?z) = Some t0" by simp
  have second: "check_rule fmt (t0 + 30) n2 n3 ?eng1 ?w1 ?z 3 data = Inr (None, ?eng1, ?w1, [])"
    using lt by (rule check_rule_cooldown) (simp add: z)
  have c1: "\<not> cooling ?eng1 ?z (t0 + 61)" by (simp add: cooling_def z)
  have third: "\<exists>eng2 w2 l2. check_rule fmt (t0 + 61) n2 n3 ?eng1 ?w1 ?z 3 data
                   = Inr (Some (triggered_alert ?z m2 3 n2), eng2, w2, l2)"
    using a c1 z by (subst check_rule_triggers [where msg = m2]) (simp_all add: zscore_above_def)
  have recent: "tq < t0 + 300 \<longrightarrow> get_recent_alerts ?eng1 5 tq = [?a1]"
    using a by (simp add: get_recent_alerts_def triggered_alert_def)
  from first second third recent
  show "\<exists>eng1 w1 l1.
             check_rule fmt t0 t0 t0 eng0 w0 ?z 2.5 data = Inr (Some ?a1, eng1, w1, l1)
           \<and> check_rule fmt (t0 + 30) n2 n3 eng1 w1 ?z 3 data = Inr (None, eng1, w1, [])
           \<and> (\<exists>eng2 w2 l2.
                 check_rule fmt (t0 + 61) n2 n3 eng1 w1 ?z 3 data
                   = Inr (Some (triggered_alert ?z m2 3 n2), eng2, w2, l2))
           \<and> (tq < t0 + 300 \<longrightarrow> get_recent_alerts eng1 5 tq = [?a1])"
    by blast
qed

theorem cooldown_blocks_refire_witness:
  "check_rule (\<lambda>t s v th. Inr t) 30 30 30
      ((AlertEngine 0.1 :: unit alert_engine)\<lparr> last_trigger_times := [''zscore_test-pair_2.0'' \<mapsto> 0] \<rparr>)
      () (zscore_threshold_alert ''test-pair'' 2 ''2.0'' WARNING) 3 None
     = Inr (None,
            (AlertEngine 0.1)\<lparr> last_trigger_times := [''zscore_test-pair_2.0'' \<mapsto> 0] \<rparr>, (), [])
   \<and> (\<exists>eng' w' l.
         check_rule (\<lambda>t s v th. Inr t) 61 61 61
           ((AlertEngine 0.1 :: unit alert_engine)\<lparr> last_trigger_times := [''zscore_test-pair_2.0'' \<mapsto> 0] \<rparr>)
           () (zscore_threshold_alert ''test-pair'' 2 ''2.0'' WARNING) 3 None
         = Inr (Some (triggered_alert (zscore_threshold_alert ''test-pair'' 2 ''2.0'' WARNING)
                        ''Z-score for {symbol} = {value:.2f} (threshold: {threshold})'' 3 61),
                eng', w', l))
   \<and> (\<exists>eng1 w1 l1.
         check_rule (\<lambda>t s v th. Inr t) 0 0 0 (AlertEngine 0.1 :: unit alert_engine) ()
             (zscore_threshold_alert ''test-pair'' 2 ''2.0'' WARNING) 2.5 None
           = Inr (Some (triggered_alert (zscore_threshold_alert ''test-pair'' 2 ''2.0'' WARNING)
                          ''Z-score for {symbol} = {value:.2f} (threshold: {threshold})'' 2.5 0),
                  eng1, w1, l1)
       \<and> check_rule (\<lambda>t s v th. Inr t) (0 + 30) 30 30 eng1 w1
             (zscore_threshold_alert ''test-pair'' 2 ''2.0'' WARNING) 3 None
           = Inr (None, eng1, w1, [])
       \<and> (\<exists>eng2 w2 l2.
             check_rule (\<lambda>t s v th. Inr t) (0 + 61) 30 30 eng1 w1
                 (zscore_threshold_alert ''test-pair'' 2 ''2.0'' WARNING) 3 None
               = Inr (Some (triggered_alert (zscore_threshold_alert ''test-pair'' 2 ''2.0'' WARNING)
                              ''Z-score for {symbol} = {value:.2f} (threshold: {threshold})'' 3 30),
                      eng2, w2, l2))
       \<and> get_recent_alerts eng1 5 1
           = [triggered_alert (zscore_threshold_alert ''test-pair'' 2 ''2.0'' WARNING)
                ''Z-score for {symbol} = {value:.2f} (threshold: {threshold})'' 2.5 0])"
  using cooldown_blocks_refire
    [where eng = "(AlertEngine 0.1 :: unit alert_engine)\<lparr> last_trigger_times := [''zscore_test-pair_2.0'' \<mapsto> 0] \<rparr>"
       and r = "zscore_threshold_alert ''test-pair'' 2 ''2.0'' WARNING"
       and t = 0 and ?n1.0 = 30 and ?n2.0 = 30 and ?n3.0 = 30 and fmt = "\<lambda>t s v th. Inr t" and w = "()"
       and v = 3 and data = None and msg = "''Z-score for {symbol} = {value:.2f} (threshold: {threshold})''"
       and ?eng0.0 = "AlertEngine 0.1 :: unit alert_engine" and sy = "''test-pair''" and shown = "''2.0''"
       and sev = WARNING
       and ?m1.0 = "''Z-score for {symbol} = {value:.2f} (threshold: {threshold})''"
       and ?m2.0 = "''Z-score for {symbol} = {value:.2f} (threshold: {threshold})''"
       and ?t0.0 = 0 and ?w0.0 = "()" and tq = 1]
    cooldown_blocks_refire
    [where eng = "(AlertEngine 0.1 :: unit alert_engine)\<lparr> last_trigger_times := [''zscore_test-pair_2.0'' \<mapsto> 0] \<rparr>"
       and r = "zscore_threshold_alert ''test-pair'' 2 ''2.0'' WARNING"
       and t = 0 and ?n1.0 = 61 and ?n2.0 = 61 and ?n3.0 = 61 and fmt = "\<lambda>t s v th. Inr t" and w = "()"
       and v = 3 and data = None and msg = "''Z-score for {symbol} = {value:.2f} (threshold: {threshold})''"
       and ?eng0.0 = "AlertEngine 0.1 :: unit alert_engine" and sy = "''test-pair''" and shown = "''2.0''"
       and sev = WARNING
       and ?m1.0 = "''Z-score for {symbol} = {value:.2f} (threshold: {threshold})''"
       and ?m2.0 = "''Z-score for {symbol} = {value:.2f} (threshold: {threshold})''"
       and ?t0.0 = 0 and ?w0.0 = "()" and tq = 1]
  by (simp add: zscore_threshold_alert_def zscore_above_def AlertEngine_def)

text \<open>
  Claim C10. \<open>clear_history\<close> empties the history and changes no other field: the
  rules, the callbacks and the last trigger times are the same. So a rule within its
  cooldown is still suppressed by \<open>check_rule\<close> on the cleared engine, in particular a
  rule that has just fired.
\<close>

theorem clear_history_keeps_cooldown:
  "fst (clear_history eng) = eng\<lparr> alert_history := [] \<rparr>
   \<and> alert_history (fst (clear_history eng)) = []
   \<and> rules (fst (clear_history eng)) = rules eng
   \<and> callbacks (fst (clear_history eng)) = callbacks eng
   \<and> last_trigger_times (fst (clear_history eng)) = last_trigger_times eng
   \<and> (last_trigger_times eng (rule_id r) = Some t \<and> n1 - t < real_of_int (cooldown_seconds r)
        \<longrightarrow> check_rule fmt n1 n2 n3 (fst (clear_history eng)) w r v data
              = Inr (None, fst (clear_history eng), w, []))
   \<and> (check_rule fmt k1 k2 k3 eng0 w0 r v0 data0 = Inr (Some a, eng, w1, l1)
        \<and> n1 - k3 < real_of_int (cooldown_seconds r)
        \<longrightarrow> check_rule fmt n1 n2 n3 (fst (clear_history eng)) w r v data
              = Inr (None, fst (clear_history eng), w, []))"
proof (intro conjI impI)
  assume "last_trigger_times eng (rule_id r) = Some t \<and> n1 - t < real_of_int (cooldown_seconds r)"
  then show "check_rule fmt n1 n2 n3 (fst (clear_history eng)) w r v data
              = Inr (None, fst (clear_history eng), w, [])"
    by (intro check_rule_cooldown [where t = t]) (simp_all add: clear_history_def)
next
  assume a: "check_rule fmt k1 k2 k3 eng0 w0 r v0 data0 = Inr (Some a, eng, w1, l1)
        \<and> n1 - k3 < real_of_int (cooldown_seconds r)"
  then have "check_rule fmt k1 k2 k3 eng0 w0 r v0 data0 = Inr (Some a, eng, w1, l1)"
    by simp
  from check_rule_fired_sets_last_trigger [OF this]
  have "last_trigger_times eng (rule_id r) = Some k3"
    by simp
  with a show "check_rule fmt n1 n2 n3 (fst (clear_history eng)) w r v data
              = Inr (None, fst (clear_history eng), w, [])"
    by (intro check_rule_cooldown [where t = k3]) (simp_all add: clear_history_def)
qed (simp_all add: clear_history_def)

theorem clear_history_keeps_cooldown_witness:
  "check_rule (\<lambda>t s v th. Inr t) 0 0 0 (AlertEngine 0.1 :: unit alert_engine) ()
       (zscore_threshold_alert ''test-pair'' 2 ''2.0'' WARNING) 2.5 None
     = Inr (Some (triggered_alert (zscore_threshold_alert ''test-pair'' 2 ''2.0'' WARNING)
                    ''Z-score for {symbol} = {value:.2f} (threshold: {threshold})'' 2.5 0),
            (AlertEngine 0.1)
              \<lparr> last_trigger_times := [''zscore_test-pair_2.0'' \<mapsto> 0],
                alert_history :=
                  [triggered_alert (zscore_threshold_alert ''test-pair'' 2 ''2.0'' WARNING)
                     ''Z-score for {symbol} = {value:.2f} (threshold: {threshold})'' 2.5 0] \<rparr>,
            (), [LogWarning ''ALERT: Z-score for {symbol} = {value:.2f} (threshold: {threshold})''])
   \<and> check_rule (\<lambda>t s v th. Inr t) 30 30 30
       (fst (clear_history
          ((AlertEngine 0.1 :: unit alert_engine)
              \<lparr> last_trigger_times := [''zscore_test-pair_2.0'' \<mapsto> 0],
                alert_history :=
                  [triggered_alert (zscore_threshold_alert ''test-pair'' 2 ''2.0'' WARNING)
                     ''Z-score for {symbol} = {value:.2f} (threshold: {threshold})'' 2.5 0] \<rparr>)))
       () (zscore_threshold_alert ''test-pair'' 2 ''2.0'' WARNING) 3 None
     = Inr (None,
            (AlertEngine 0.1)\<lparr> last_trigger_times := [''zscore_test-pair_2.0'' \<mapsto> 0] \<rparr>, (), [])"
  using clear_history_keeps_cooldown
    [where eng = "(AlertEngine 0.1 :: unit alert_engine)
              \<lparr> last_trigger_times := [''zscore_test-pair_2.0'' \<mapsto> 0],
                alert_history :=
                  [triggered_alert (zscore_threshold_alert ''test-pair'' 2 ''2.0'' WARNING)
                     ''Z-score for {symbol} = {value:.2f} (threshold: {threshold})'' 2.5 0] \<rparr>"
       and r = "zscore_threshold_alert ''test-pair'' 2 ''2.0'' WARNING"
       and t = 0 and ?n1.0 = 30 and ?n2.0 = 30 and ?n3.0 = 30 and fmt = "\<lambda>t s v th. Inr t"
       and w = "()" and v = 3 and data = None
       and ?k1.0 = 0 and ?k2.0 = 0 and ?k3.0 = 0 and ?eng0.0 = "AlertEngine 0.1 :: unit alert_engine"
       and ?w0.0 = "()" and ?v0.0 = "2.5" and ?data0.0 = None
       and a = "triggered_alert (zscore_threshold_alert ''test-pair'' 2 ''2.0'' WARNING)
                     ''Z-score for {symbol} = {value:.2f} (threshold: {threshold})'' 2.5 0"
       and ?w1.0 = "()"
       and ?l1.0 = "[LogWarning ''ALERT: Z-score for {symbol} = {value:.2f} (threshold: {threshold})'']"]
  by (simp add: zscore_threshold_alert_def zscore_above_def AlertEngine_def check_rule_def
        triggered_alert_def clear_history_def Let_def)

section \<open>Properties of the statistics\<close>

text \<open>
  The half-life is NaN below 20 clean samples; from 20 on the frame has at least 19 rows
  and the result is decided by the fitted coefficient. A coefficient below \<open>-1\<close> gives
  the logarithm of a negative number, hence NaN; the coefficient \<open>-1\<close> gives 0.
\<close>

lemma length_aligned_pairs: "length (aligned_pairs c) = length c - 1"
  by (simp add: aligned_pairs_def)


lemma half_life_fit:
  assumes "length (dropna spread) \<ge> 20"
  shows "calculate_half_life ols spread =
     (case ols (map fst (aligned_pairs (dropna spread)))
               (map snd (aligned_pairs (dropna spread))) of
        Inl e \<Rightarrow> NaN
      | Inr l \<Rightarrow> if l \<ge> 0 then PosInf else fval_div (Fin (- ln 2)) (np_log (1 + l)))"
proof -
  have "\<not> length (dropna spread) < 20" "\<not> length (aligned_pairs (dropna spread)) < 10"
    using assms by (simp_all add: length_aligned_pairs)
  then show ?thesis
    by (simp add: calculate_half_life_def Let_def)
qed


lemma half_life_steep:
  assumes "length (dropna spread) \<ge> 20"
    and "ols (map fst (aligned_pairs (dropna spread)))
             (map snd (aligned_pairs (dropna spread))) = Inr l"
  shows "l < - 1 \<Longrightarrow> calculate_half_life ols spread = NaN"
    and "l = - 1 \<Longrightarrow> calculate_half_life ols spread = Fin 0"
  using assms by (simp_all add: half_life_fit np_log_def)





end
